theory Spec2Isabelle
  imports Main "HOL-Library.AList"
begin

section \<open>Python values, exceptions and the libraries the handler calls\<close>

text \<open>
  The request handler lives in the string \<open>lambda_code\<close> of
  \<^verbatim>\<open>src/aws-python/serverless-api/__main__.py\<close> (lines 89 to 150). It is Python: its
  event, the parsed request body and whatever the table returns are dynamically typed
  values. A decimal number \<open>Decimal c e\<close> stands for \<open>c * 10 ^ e\<close>. Python's binary
  floating point numbers are not modelled: they are the type parameter \<open>'f\<close>, and the
  conversion \<open>float(obj)\<close> is a parameter of the model.
\<close>

datatype decimal = Decimal int int

datatype 'f pyval =
    PNone
  | PBool bool
  | PInt int
  | PFloat 'f
  | PStr string
  | PDecimal decimal
  | PBinary string
  | PList "'f pyval list"
  | PDict "(string \<times> 'f pyval) list"

text \<open>
  The exceptions that can occur; all of them are subclasses of \<open>Exception\<close>
  (\<open>DecimalSignal\<close> stands for \<open>decimal.Inexact\<close> and \<open>decimal.Rounded\<close>). Every
  constructor but \<open>KeyError\<close> carries its message; \<open>KeyError\<close> carries the missing key.
  The messages of the client library and of the service are shortened.
\<close>

datatype exc =
    KeyError string
  | TypeError string
  | AttributeError string
  | IndexError string
  | JSONDecodeError string
  | DecimalSignal string
  | ParamValidationError string
  | ClientError string

text \<open>\<open>str(e)\<close>: the message, and for a \<open>KeyError\<close> the quoted key.\<close>

definition quoted :: "string \<Rightarrow> string" where
  "quoted s = [CHR 0x27] @ s @ [CHR 0x27]"

fun py_str :: "exc \<Rightarrow> string" where
  "py_str (KeyError k) = quoted k"
| "py_str (TypeError m) = m"
| "py_str (AttributeError m) = m"
| "py_str (IndexError m) = m"
| "py_str (JSONDecodeError m) = m"
| "py_str (DecimalSignal m) = m"
| "py_str (ParamValidationError m) = m"
| "py_str (ClientError m) = m"

definition bind_exc :: "exc + 'a \<Rightarrow> ('a \<Rightarrow> exc + 'b) \<Rightarrow> exc + 'b" where
  "bind_exc m f = (case m of Inl e \<Rightarrow> Inl e | Inr x \<Rightarrow> f x)"

text \<open>Evaluating a list of computations from left to right: the first exception wins.\<close>

fun sequence_exc :: "(exc + 'a) list \<Rightarrow> exc + 'a list" where
  "sequence_exc [] = Inr []"
| "sequence_exc (m # ms) =
     (case m of
        Inl e \<Rightarrow> Inl e
      | Inr x \<Rightarrow> (case sequence_exc ms of Inl e \<Rightarrow> Inl e | Inr xs \<Rightarrow> Inr (x # xs)))"

fun sequence_fields :: "('k \<times> (exc + 'a)) list \<Rightarrow> exc + ('k \<times> 'a) list" where
  "sequence_fields [] = Inr []"
| "sequence_fields ((k, m) # kms) =
     (case m of
        Inl e \<Rightarrow> Inl e
      | Inr x \<Rightarrow> (case sequence_fields kms of Inl e \<Rightarrow> Inl e | Inr kxs \<Rightarrow> Inr ((k, x) # kxs)))"

text \<open>The name of the class of a value, as the messages of Python 3.11 print it.\<close>

fun class_name :: "'f pyval \<Rightarrow> string" where
  "class_name PNone = ''NoneType''"
| "class_name (PBool b) = ''bool''"
| "class_name (PInt n) = ''int''"
| "class_name (PFloat x) = ''float''"
| "class_name (PStr s) = ''str''"
| "class_name (PDecimal d) = ''Decimal''"
| "class_name (PBinary b) = ''Binary''"
| "class_name (PList xs) = ''list''"
| "class_name (PDict kvs) = ''dict''"

text \<open>
  \<open>obj[key]\<close> with a string key, and \<open>key in obj\<close>: a key of a dictionary, an element
  of a list, a part of a string.
\<close>

fun subscript :: "'f pyval \<Rightarrow> string \<Rightarrow> exc + 'f pyval" where
  "subscript (PDict kvs) k =
     (case map_of kvs k of None \<Rightarrow> Inl (KeyError k) | Some v \<Rightarrow> Inr v)"
| "subscript (PStr s) k = Inl (TypeError (''string indices must be integers, not '' @ quoted ''str''))"
| "subscript (PList xs) k = Inl (TypeError ''list indices must be integers or slices, not str'')"
| "subscript v k = Inl (TypeError (quoted (class_name v) @ '' object is not subscriptable''))"

definition has_prefix :: "string \<Rightarrow> string \<Rightarrow> bool" where
  "has_prefix p s = (take (length p) s = p)"

fun py_in :: "string \<Rightarrow> 'f pyval \<Rightarrow> exc + bool" where
  "py_in k (PDict kvs) = Inr (map_of kvs k \<noteq> None)"
| "py_in k (PList xs) = Inr (list_ex (\<lambda>x. x = PStr k) xs)"
| "py_in k (PStr s) = Inr (list_ex (\<lambda>i. has_prefix k (drop i s)) [0..<Suc (length s)])"
| "py_in k v = Inl (TypeError (''argument of type '' @ quoted (class_name v) @ '' is not iterable''))"

text \<open>\<open>path.startswith(p)\<close>, \<open>path.split(sep)\<close> and \<open>xs[-1]\<close>.\<close>

fun startswith :: "'f pyval \<Rightarrow> string \<Rightarrow> exc + bool" where
  "startswith (PStr s) p = Inr (has_prefix p s)"
| "startswith v p =
     Inl (AttributeError (quoted (class_name v) @ '' object has no attribute '' @ quoted ''startswith''))"

fun split_chr :: "char \<Rightarrow> string \<Rightarrow> string list" where
  "split_chr c [] = [[]]"
| "split_chr c (x # xs) =
     (if x = c then [] # split_chr c xs
      else (case split_chr c xs of [] \<Rightarrow> [[x]] | w # ws \<Rightarrow> (x # w) # ws))"

fun split :: "'f pyval \<Rightarrow> char \<Rightarrow> exc + string list" where
  "split (PStr s) c = Inr (split_chr c s)"
| "split v c =
     Inl (AttributeError (quoted (class_name v) @ '' object has no attribute '' @ quoted ''split''))"

definition last_elem :: "'a list \<Rightarrow> exc + 'a" where
  "last_elem xs = (if xs = [] then Inl (IndexError ''list index out of range'') else Inr (last xs))"

subsection \<open>The json library\<close>

text \<open>
  \<open>json.loads\<close> and \<open>float\<close> come from outside the repository and are parameters.
  \<open>json.loads\<close> only parses a \<open>str\<close>; what the handler passes is \<open>event['body']\<close>,
  which is \<open>None\<close> for a request without a body.
\<close>

record 'f pylib =
  loads_str :: "string \<Rightarrow> exc + 'f pyval"
  float_of_decimal :: "decimal \<Rightarrow> 'f"

fun json_loads :: "'f pylib \<Rightarrow> 'f pyval \<Rightarrow> exc + 'f pyval" where
  "json_loads lib (PStr s) = loads_str lib s"
| "json_loads lib v =
     Inl (TypeError (''the JSON object must be str, bytes or bytearray, not '' @ class_name v))"

text \<open>
  \<open>json.dumps(obj, cls=E)\<close> walks \<open>obj\<close>; a value that is not \<open>None\<close>, a \<open>bool\<close>, an
  \<open>int\<close>, a \<open>float\<close>, a \<open>str\<close>, a list or a dictionary is handed to \<open>E.default\<close>, whose
  result is written in its place. Both \<open>default\<close> methods of the program return a
  \<open>float\<close> or raise. The string that \<open>json.dumps\<close> returns is kept as \<open>JsonText t\<close>, the
  text of the JSON document \<open>t\<close>: two such strings are JSON-equal when the documents are.
\<close>

datatype 'f json_str = JsonText "'f pyval"

definition JSONEncoder_default :: "'f pyval \<Rightarrow> exc + 'f" where
  "JSONEncoder_default obj =
     Inl (TypeError (''Object of type '' @ class_name obj @ '' is not JSON serializable''))"

definition DecimalEncoder_default :: "'f pylib \<Rightarrow> 'f pyval \<Rightarrow> exc + 'f" where
  "DecimalEncoder_default lib obj =
     (case obj of
        PDecimal d \<Rightarrow> Inr (float_of_decimal lib d)
      | _ \<Rightarrow> JSONEncoder_default obj)"

primrec json_encode :: "('f pyval \<Rightarrow> exc + 'f) \<Rightarrow> 'f pyval \<Rightarrow> exc + 'f pyval" where
  "json_encode dflt PNone = Inr PNone"
| "json_encode dflt (PBool b) = Inr (PBool b)"
| "json_encode dflt (PInt n) = Inr (PInt n)"
| "json_encode dflt (PFloat x) = Inr (PFloat x)"
| "json_encode dflt (PStr s) = Inr (PStr s)"
| "json_encode dflt (PDecimal d) = map_sum id PFloat (dflt (PDecimal d))"
| "json_encode dflt (PBinary b) = map_sum id PFloat (dflt (PBinary b))"
| "json_encode dflt (PList xs) =
     map_sum id PList (sequence_exc (map (json_encode dflt) xs))"
| "json_encode dflt (PDict kvs) =
     map_sum id PDict (sequence_fields (map (map_prod id (json_encode dflt)) kvs))"

definition json_dumps :: "('f pyval \<Rightarrow> exc + 'f) \<Rightarrow> 'f pyval \<Rightarrow> exc + 'f json_str" where
  "json_dumps dflt obj = map_sum id JsonText (json_encode dflt obj)"

section \<open>The table\<close>

text \<open>
  The table is declared in lines 24 to 42 of the source: its only key attribute is the
  hash key \<open>id\<close>, of type \<open>S\<close> (string). The store and its client library are not part
  of the repository; the handler calls three operations, \<open>scan\<close>, \<open>get_item\<close> and
  \<open>put_item\<close>, at most one in an invocation.

  Modelled from the spec: the key-value collection behind the handler (sections 3 and 6:
  items keyed by the string \<open>id\<close>, the operations scan-all, get-by-key and put, a put
  that overwrites; section 7: any call may fail). The table is the association list of
  its items by key. What the service does with the one call of an invocation is a
  parameter of that invocation, \<open>service\<close>: \<open>fault\<close> is \<open>Some e\<close> when the service fails
  the call with \<open>e\<close> (throttling, outage, denied permission, a size limit exceeded), and
  \<open>page_limit\<close> is the number of items that fit in the one page a \<open>scan\<close> returns. Each
  call fails or succeeds on its own.
\<close>

definition hash_key :: string where
  "hash_key = ''id''"

record 'f table =
  contents :: "(string \<times> 'f pyval) list"

record service =
  fault :: "exc option"
  page_limit :: nat

text \<open>
  Modelled from the spec: the numbers of the store are decimals (section 4.1). What a
  Python value looks like when it is read back after having been written: an \<open>int\<close> or
  a \<open>Decimal\<close> of at most 38 digits is written as a number and read back as a
  \<open>Decimal\<close>; the client library refuses a longer one (its decimal context traps
  rounding) and refuses a \<open>float\<close>, with a \<open>TypeError\<close>.
\<close>

definition dynamo_number :: "int \<Rightarrow> int \<Rightarrow> exc + 'f pyval" where
  "dynamo_number c e =
     (if \<bar>c\<bar> < 10 ^ 38 then Inr (PDecimal (Decimal c e))
      else Inl (DecimalSignal ''[<class decimal.Inexact>, <class decimal.Rounded>]''))"

primrec dynamo_value :: "'f pyval \<Rightarrow> exc + 'f pyval" where
  "dynamo_value PNone = Inr PNone"
| "dynamo_value (PBool b) = Inr (PBool b)"
| "dynamo_value (PInt n) = dynamo_number n 0"
| "dynamo_value (PFloat x) =
     Inl (TypeError ''Float types are not supported. Use Decimal types instead.'')"
| "dynamo_value (PStr s) = Inr (PStr s)"
| "dynamo_value (PDecimal d) = (case d of Decimal c e \<Rightarrow> dynamo_number c e)"
| "dynamo_value (PBinary b) = Inr (PBinary b)"
| "dynamo_value (PList xs) = map_sum id PList (sequence_exc (map dynamo_value xs))"
| "dynamo_value (PDict kvs) =
     map_sum id PDict (sequence_fields (map (map_prod id dynamo_value) kvs))"

text \<open>The \<open>id\<close> of an item: its attribute \<open>id\<close>, when that is a string.\<close>

definition item_id :: "'f pyval \<Rightarrow> string option" where
  "item_id item =
     (case item of
        PDict kvs \<Rightarrow> (case map_of kvs hash_key of Some (PStr k) \<Rightarrow> Some k | _ \<Rightarrow> None)
      | _ \<Rightarrow> None)"

text \<open>
  The service checks the key of a call against the key schema: the attribute \<open>id\<close> must
  be there, be a string, and not be the empty string.
\<close>

definition check_key :: "'f pyval option \<Rightarrow> exc + string" where
  "check_key v =
     (case v of
        None \<Rightarrow>
          Inl (ClientError ''ValidationException: Missing the key id in the item'')
      | Some (PStr k) \<Rightarrow>
          if k = [] then
            Inl (ClientError ''ValidationException: The AttributeValue for a key attribute cannot contain an empty string value. Key: id'')
          else Inr k
      | Some _ \<Rightarrow>
          Inl (ClientError ''ValidationException: Type mismatch for key id expected: S''))"

text \<open>
  \<open>table.scan()\<close>: the response holds one page of items under the key \<open>Items\<close>, and the
  key \<open>LastEvaluatedKey\<close> when the table has more items than the page. The code makes
  this one call and reads \<open>Items\<close>. The other keys of the responses (counts, metadata)
  are left out: the handler does not read them.
\<close>

definition scan :: "service \<Rightarrow> 'f table \<Rightarrow> exc + 'f pyval" where
  "scan svc tbl =
     (case fault svc of
        Some e \<Rightarrow> Inl e
      | None \<Rightarrow>
          (let page = take (max 1 (page_limit svc)) (contents tbl) in
           Inr (PDict ((''Items'', PList (map snd page)) #
                  (if length page < length (contents tbl)
                   then [(''LastEvaluatedKey'', PDict [(hash_key, PStr (fst (last page)))])]
                   else [])))))"

text \<open>
  \<open>table.get_item(Key={'id': key})\<close>: the response has the key \<open>Item\<close> only when the
  item exists.
\<close>

definition get_item :: "service \<Rightarrow> 'f table \<Rightarrow> string \<Rightarrow> exc + 'f pyval" where
  "get_item svc tbl key =
     (case fault svc of
        Some e \<Rightarrow> Inl e
      | None \<Rightarrow>
          (case check_key (Some (PStr key :: 'f pyval)) of
             Inl e \<Rightarrow> Inl e
           | Inr k \<Rightarrow>
               (case map_of (contents tbl) k of
                  None \<Rightarrow> Inr (PDict [])
                | Some item \<Rightarrow> Inr (PDict [(''Item'', item)]))))"

text \<open>
  \<open>table.put_item(Item=item)\<close>: the item must be a dictionary whose values can be
  written; it replaces the item with the same key, if any.
\<close>

definition put_item :: "service \<Rightarrow> 'f table \<Rightarrow> 'f pyval \<Rightarrow> exc + 'f table" where
  "put_item svc tbl item =
     (case item of
        PDict kvs \<Rightarrow>
          (case dynamo_value item of
             Inl e \<Rightarrow> Inl e
           | Inr v \<Rightarrow>
               (case fault svc of
                  Some e \<Rightarrow> Inl e
                | None \<Rightarrow>
                    (case check_key (case v of PDict kws \<Rightarrow> map_of kws hash_key | _ \<Rightarrow> None) of
                       Inl e \<Rightarrow> Inl e
                     | Inr k \<Rightarrow> Inr (tbl\<lparr>contents := AList.update k v (contents tbl)\<rparr>))))
      | _ \<Rightarrow>
          Inl (ParamValidationError
                 (''Parameter validation failed: Invalid type for parameter Item, type: '' @
                  class_name item @ '', valid types: dict'')))"

section \<open>The handler\<close>

record 'f response =
  statusCode :: int
  headers :: "(string \<times> string) list option"
  body :: "'f json_str"

text \<open>
  The body of the \<open>try\<close> statement (lines 109 to 143), with \<open>http_method\<close> and \<open>path\<close>
  already read from the event; \<open>svc\<close> is what the service does with the call of this
  invocation. It returns the response or the exception raised, and the table as the
  call has left it.
\<close>

definition dispatch ::
  "'f pylib \<Rightarrow> service \<Rightarrow> 'f table \<Rightarrow> 'f pyval \<Rightarrow> 'f pyval \<Rightarrow> 'f pyval \<Rightarrow>
   (exc + 'f response) \<times> 'f table" where
  "dispatch lib svc tbl event http_method path =
     (if http_method = PStr ''GET'' \<and> path = PStr ''/items'' then
        (bind_exc (scan svc tbl) (\<lambda>response.
         bind_exc (subscript response ''Items'') (\<lambda>its.
         bind_exc (json_dumps (DecimalEncoder_default lib) its) (\<lambda>s.
           Inr \<lparr>statusCode = 200,
                headers = Some [(''Content-Type'', ''application/json'')],
                body = s\<rparr>))), tbl)
      else if http_method = PStr ''POST'' \<and> path = PStr ''/items'' then
        (case bind_exc (subscript event ''body'') (json_loads lib) of
           Inl e \<Rightarrow> (Inl e, tbl)
         | Inr parsed \<Rightarrow>
             (case put_item svc tbl parsed of
                Inl e \<Rightarrow> (Inl e, tbl)
              | Inr tbl' \<Rightarrow>
                  (bind_exc (json_dumps JSONEncoder_default
                               (PDict [(''message'', PStr ''Item created'')])) (\<lambda>s.
                     Inr \<lparr>statusCode = 201,
                          headers = Some [(''Content-Type'', ''application/json'')],
                          body = s\<rparr>), tbl')))
      else
        (case (if http_method = PStr ''GET'' then startswith path ''/items/'' else Inr False) of
           Inl e \<Rightarrow> (Inl e, tbl)
         | Inr matches \<Rightarrow>
             if matches then
               (bind_exc (split path (CHR ''/'')) (\<lambda>parts.
                bind_exc (last_elem parts) (\<lambda>item_id.
                bind_exc (get_item svc tbl item_id) (\<lambda>response.
                bind_exc (py_in ''Item'' response) (\<lambda>found.
                  if found then
                    bind_exc (subscript response ''Item'') (\<lambda>item.
                    bind_exc (json_dumps (DecimalEncoder_default lib) item) (\<lambda>s.
                      Inr \<lparr>statusCode = 200,
                           headers = Some [(''Content-Type'', ''application/json'')],
                           body = s\<rparr>))
                  else
                    bind_exc (json_dumps JSONEncoder_default
                                (PDict [(''error'', PStr ''Item not found'')])) (\<lambda>s.
                      Inr \<lparr>statusCode = 404, headers = None, body = s\<rparr>))))), tbl)
             else
               (bind_exc (json_dumps JSONEncoder_default
                            (PDict [(''error'', PStr ''Not found'')])) (\<lambda>s.
                  Inr \<lparr>statusCode = 404, headers = None, body = s\<rparr>), tbl)))"

text \<open>
  \<open>handler(event, context)\<close>, lines 104 to 149: the two reads of the event,
  \<open>event['requestContext']['http'][name]\<close>, come first, outside the \<open>try\<close> statement;
  \<open>except Exception as e\<close> turns what the \<open>try\<close> body raises into the response 500. The
  result is the response returned or the exception that leaves the handler, and the
  table afterwards. \<open>context\<close> is not used.
\<close>

definition request_field :: "'f pyval \<Rightarrow> string \<Rightarrow> exc + 'f pyval" where
  "request_field event name =
     bind_exc (bind_exc (subscript event ''requestContext'') (\<lambda>rc. subscript rc ''http''))
       (\<lambda>http. subscript http name)"

definition handler ::
  "'f pylib \<Rightarrow> service \<Rightarrow> 'f table \<Rightarrow> 'f pyval \<Rightarrow> (exc + 'f response) \<times> 'f table" where
  "handler lib svc tbl event =
     (case request_field event ''method'' of
        Inl e \<Rightarrow> (Inl e, tbl)
      | Inr http_method \<Rightarrow>
          (case request_field event ''path'' of
             Inl e \<Rightarrow> (Inl e, tbl)
           | Inr path \<Rightarrow>
               (case dispatch lib svc tbl event http_method path of
                  (Inr resp, tbl') \<Rightarrow> (Inr resp, tbl')
                | (Inl e, tbl') \<Rightarrow>
                    (bind_exc (json_dumps JSONEncoder_default
                                 (PDict [(''error'', PStr (py_str e))])) (\<lambda>s.
                       Inr \<lparr>statusCode = 500, headers = None, body = s\<rparr>), tbl'))))"

text \<open>
  The event the HTTP front end builds for a request: method and path are strings, the
  body is a string or \<open>None\<close>.
\<close>

definition http_event :: "string \<Rightarrow> string \<Rightarrow> string option \<Rightarrow> 'f pyval" where
  "http_event m p b =
     PDict [(''requestContext'', PDict [(''http'', PDict [(''method'', PStr m), (''path'', PStr p)])]),
            (''body'', (case b of None \<Rightarrow> PNone | Some s \<Rightarrow> PStr s))]"

section \<open>Notions of the specification\<close>

text \<open>
  A JSON document, as \<open>json.loads\<close> returns it: no \<open>Decimal\<close> and no binary value.
  \<open>json_able\<close>: a value that the \<open>DecimalEncoder\<close> can write, one without a binary
  value. \<open>floatify\<close>: the value with every \<open>Decimal\<close> replaced by its \<open>float\<close>;
  \<open>decimal_free\<close>: no \<open>Decimal\<close> is left.
\<close>

primrec is_json :: "'f pyval \<Rightarrow> bool" where
  "is_json PNone = True"
| "is_json (PBool b) = True"
| "is_json (PInt n) = True"
| "is_json (PFloat x) = True"
| "is_json (PStr s) = True"
| "is_json (PDecimal d) = False"
| "is_json (PBinary b) = False"
| "is_json (PList xs) = list_all id (map is_json xs)"
| "is_json (PDict kvs) = list_all snd (map (map_prod id is_json) kvs)"

primrec json_able :: "'f pyval \<Rightarrow> bool" where
  "json_able PNone = True"
| "json_able (PBool b) = True"
| "json_able (PInt n) = True"
| "json_able (PFloat x) = True"
| "json_able (PStr s) = True"
| "json_able (PDecimal d) = True"
| "json_able (PBinary b) = False"
| "json_able (PList xs) = list_all id (map json_able xs)"
| "json_able (PDict kvs) = list_all snd (map (map_prod id json_able) kvs)"

primrec decimal_free :: "'f pyval \<Rightarrow> bool" where
  "decimal_free PNone = True"
| "decimal_free (PBool b) = True"
| "decimal_free (PInt n) = True"
| "decimal_free (PFloat x) = True"
| "decimal_free (PStr s) = True"
| "decimal_free (PDecimal d) = False"
| "decimal_free (PBinary b) = True"
| "decimal_free (PList xs) = list_all id (map decimal_free xs)"
| "decimal_free (PDict kvs) = list_all snd (map (map_prod id decimal_free) kvs)"

primrec floatify :: "'f pylib \<Rightarrow> 'f pyval \<Rightarrow> 'f pyval" where
  "floatify lib PNone = PNone"
| "floatify lib (PBool b) = PBool b"
| "floatify lib (PInt n) = PInt n"
| "floatify lib (PFloat x) = PFloat x"
| "floatify lib (PStr s) = PStr s"
| "floatify lib (PDecimal d) = PFloat (float_of_decimal lib d)"
| "floatify lib (PBinary b) = PBinary b"
| "floatify lib (PList xs) = PList (map (floatify lib) xs)"
| "floatify lib (PDict kvs) = PDict (map (map_prod id (floatify lib)) kvs)"


text \<open>The part of a path after its last \<open>/\<close> (the whole path when it has none).\<close>

definition after_last_slash :: "string \<Rightarrow> string" where
  "after_last_slash p = rev (takeWhile (\<lambda>c. c \<noteq> CHR ''/'') (rev p))"

text \<open>
  Invocations one after the other, each with its own behaviour of the service and on
  the table the previous one left.
\<close>

fun invoke_all ::
  "'f pylib \<Rightarrow> 'f table \<Rightarrow> (service \<times> 'f pyval) list \<Rightarrow> (exc + 'f response) list \<times> 'f table" where
  "invoke_all lib tbl [] = ([], tbl)"
| "invoke_all lib tbl ((svc, event) # calls) =
     (case handler lib svc tbl event of
        (out, tbl') \<Rightarrow> (case invoke_all lib tbl' calls of (outs, tbl'') \<Rightarrow> (out # outs, tbl'')))"

definition created :: "exc + 'f response \<Rightarrow> bool" where
  "created out = (case out of Inl e \<Rightarrow> False | Inr resp \<Rightarrow> statusCode resp = 201)"

text \<open>
  The written item as a reader of the JSON text sees it after the round trip through
  the table: every integer has become the \<open>float\<close> of its \<open>Decimal\<close>.
\<close>

primrec numbers_as_float :: "'f pylib \<Rightarrow> 'f pyval \<Rightarrow> 'f pyval" where
  "numbers_as_float lib PNone = PNone"
| "numbers_as_float lib (PBool b) = PBool b"
| "numbers_as_float lib (PInt n) = PFloat (float_of_decimal lib (Decimal n 0))"
| "numbers_as_float lib (PFloat x) = PFloat x"
| "numbers_as_float lib (PStr s) = PStr s"
| "numbers_as_float lib (PDecimal d) = PFloat (float_of_decimal lib d)"
| "numbers_as_float lib (PBinary b) = PBinary b"
| "numbers_as_float lib (PList xs) = PList (map (numbers_as_float lib) xs)"
| "numbers_as_float lib (PDict kvs) = PDict (map (map_prod id (numbers_as_float lib)) kvs)"

text \<open>
  Requests. An event is a request with method \<open>m\<close> and path \<open>p\<close> when the two reads of
  the handler find these strings; it posts \<open>item\<close> when it is a \<open>POST /items\<close> whose body
  parses to \<open>item\<close>. \<open>posted_id\<close> is the key under which the body of an event would be
  written, if it can be written at all.
\<close>

definition is_request :: "'f pyval \<Rightarrow> string \<Rightarrow> string \<Rightarrow> bool" where
  "is_request event m p \<longleftrightarrow>
     request_field event ''method'' = Inr (PStr m) \<and> request_field event ''path'' = Inr (PStr p)"

definition posts_item :: "'f pylib \<Rightarrow> 'f pyval \<Rightarrow> 'f pyval \<Rightarrow> bool" where
  "posts_item lib event item \<longleftrightarrow>
     is_request event ''POST'' ''/items'' \<and>
     bind_exc (subscript event ''body'') (json_loads lib) = Inr item"

definition posted_id :: "'f pylib \<Rightarrow> 'f pyval \<Rightarrow> string option" where
  "posted_id lib event =
     (case bind_exc (subscript event ''body'') (json_loads lib) of
        Inl e \<Rightarrow> None
      | Inr item \<Rightarrow> item_id item)"

subsection \<open>A small instance\<close>

text \<open>
  For concrete runs: a \<open>json.loads\<close> that knows a handful of texts and rejects every
  other one, floats written as the decimal they were converted from, a service that
  answers, one that fails its call, one whose scan page holds a single item, and a few
  tables.
\<close>

definition widget_text :: string where
  \<open>widget_text = ''{"id": "42", "name": "widget"}''\<close>

definition gadget_text :: string where
  \<open>gadget_text = ''{"id": "42", "name": "gadget", "qty": 3}''\<close>

definition tagged_text :: string where
  \<open>tagged_text = ''{"id": "7", "tags": ["a", "b"]}''\<close>

definition slash_text :: string where
  \<open>slash_text = ''{"id": "a/b", "n": 5}''\<close>

definition slash_text' :: string where
  \<open>slash_text' = ''{"id": "a/b", "n": 6}''\<close>

definition no_id_text :: string where
  \<open>no_id_text = ''{"name": "widget"}''\<close>

definition empty_id_text :: string where
  \<open>empty_id_text = ''{"id": ""}''\<close>

definition float_text :: string where
  \<open>float_text = ''{"id": "9", "price": 9.99}''\<close>

definition long_int_text :: string where
  \<open>long_int_text = ''{"id": "8", "n": 100000000000000000000000000000000000000}''\<close>

definition sample_loads :: "string \<Rightarrow> exc + decimal pyval" where
  "sample_loads s =
     (if s = widget_text then
        Inr (PDict [(''id'', PStr ''42''), (''name'', PStr ''widget'')])
      else if s = gadget_text then
        Inr (PDict [(''id'', PStr ''42''), (''name'', PStr ''gadget''), (''qty'', PInt 3)])
      else if s = tagged_text then
        Inr (PDict [(''id'', PStr ''7''), (''tags'', PList [PStr ''a'', PStr ''b''])])
      else if s = slash_text then
        Inr (PDict [(''id'', PStr ''a/b''), (''n'', PInt 5)])
      else if s = slash_text' then
        Inr (PDict [(''id'', PStr ''a/b''), (''n'', PInt 6)])
      else if s = no_id_text then
        Inr (PDict [(''name'', PStr ''widget'')])
      else if s = empty_id_text then
        Inr (PDict [(''id'', PStr [])])
      else if s = float_text then
        Inr (PDict [(''id'', PStr ''9''), (''price'', PFloat (Decimal 999 (-2)))])
      else if s = long_int_text then
        Inr (PDict [(''id'', PStr ''8''), (''n'', PInt (10 ^ 38))])
      else Inl (JSONDecodeError ''Expecting value''))"

definition sample_lib :: "decimal pylib" where
  "sample_lib = \<lparr>loads_str = sample_loads, float_of_decimal = (\<lambda>d. d)\<rparr>"

definition answering :: service where
  "answering = \<lparr>fault = None, page_limit = 100\<rparr>"

definition failing :: service where
  "failing = \<lparr>fault = Some (ClientError ''ProvisionedThroughputExceededException''), page_limit = 100\<rparr>"

definition one_item_page :: service where
  "one_item_page = \<lparr>fault = None, page_limit = 1\<rparr>"

definition empty_table :: "decimal table" where
  "empty_table = \<lparr>contents = []\<rparr>"

definition segment_table :: "decimal table" where
  "segment_table = \<lparr>contents = [(''b'', PDict [(''id'', PStr ''b'')])]\<rparr>"

definition slash_table :: "decimal table" where
  "slash_table =
     \<lparr>contents = [(''a/b'', PDict [(''id'', PStr ''a/b''), (''n'', PDecimal (Decimal 5 0))])]\<rparr>"

definition widget_table :: "decimal table" where
  "widget_table =
     \<lparr>contents = [(''42'', PDict [(''id'', PStr ''42''), (''price'', PDecimal (Decimal 995 (-2)))])]\<rparr>"

definition binary_table :: "decimal table" where
  "binary_table =
     \<lparr>contents = [(''5'', PDict [(''id'', PStr ''5''), (''blob'', PBinary ''xyz'')])]\<rparr>"

definition two_items_table :: "decimal table" where
  "two_items_table =
     \<lparr>contents = [(''42'', PDict [(''id'', PStr ''42''), (''name'', PStr ''widget'')]),
                  (''7'', PDict [(''id'', PStr ''7''), (''tags'', PList [PStr ''a'', PStr ''b''])])]\<rparr>"

section \<open>Properties\<close>

subsection \<open>The encoder\<close>

lemma sequence_exc_map_Inr:
  "\<forall>x \<in> set xs. f x = Inr (g x) \<Longrightarrow> sequence_exc (map f xs) = Inr (map g xs)"
  by (induction xs) auto

lemma sequence_fields_map_Inr:
  "\<forall>kv \<in> set kvs. f (snd kv) = Inr (g (snd kv)) \<Longrightarrow>
   sequence_fields (map (map_prod id f) kvs) = Inr (map (map_prod id g) kvs)"
  by (induction kvs) auto

lemma sequence_exc_map_list_all2:
  "sequence_exc (map f xs) = Inr ys \<longleftrightarrow> list_all2 (\<lambda>x y. f x = Inr y) xs ys"
proof (induction xs arbitrary: ys)
  case Nil
  then show ?case by auto
next
  case (Cons x xs)
  show ?case
    by (auto simp: list_all2_Cons1 Cons.IH[symmetric] split: sum.splits)
qed

lemma sequence_fields_map_list_all2:
  "sequence_fields (map (map_prod id f) kvs) = Inr kws \<longleftrightarrow>
   list_all2 (\<lambda>kv kw. fst kw = fst kv \<and> f (snd kv) = Inr (snd kw)) kvs kws"
proof (induction kvs arbitrary: kws)
  case Nil
  then show ?case by auto
next
  case (Cons kv kvs)
  show ?case
    by (cases kv) (auto simp: list_all2_Cons1 Cons.IH[symmetric] split: sum.splits)
qed

lemma json_encode_floatify:
  "json_able v \<Longrightarrow> json_encode (DecimalEncoder_default lib) v = Inr (floatify lib v)"
proof (induction v)
  case (PList xs)
  then have "sequence_exc (map (json_encode (DecimalEncoder_default lib)) xs) = Inr (map (floatify lib) xs)"
    by (intro sequence_exc_map_Inr) (auto simp: list_all_iff)
  then show ?case by simp
next
  case (PDict kvs)
  then have "sequence_fields (map (map_prod id (json_encode (DecimalEncoder_default lib))) kvs)
       = Inr (map (map_prod id (floatify lib)) kvs)"
    by (intro sequence_fields_map_Inr) (fastforce simp: list_all_iff)
  then show ?case by simp
qed (simp_all add: DecimalEncoder_default_def JSONEncoder_default_def)

lemma json_encode_Inr:
  "json_encode (DecimalEncoder_default lib) v = Inr t \<Longrightarrow>
   json_able v \<and> t = floatify lib v \<and> decimal_free t"
proof (induction v arbitrary: t)
  case (PList xs)
  then obtain ys where ys: "sequence_exc (map (json_encode (DecimalEncoder_default lib)) xs) = Inr ys"
    and t: "t = PList ys"
    by (cases "sequence_exc (map (json_encode (DecimalEncoder_default lib)) xs)") auto
  from ys have l2: "list_all2 (\<lambda>x y. json_encode (DecimalEncoder_default lib) x = Inr y) xs ys"
    by (simp add: sequence_exc_map_list_all2)
  then have "list_all2 (\<lambda>x y. json_able x \<and> y = floatify lib x \<and> decimal_free y) xs ys"
    by (rule list.rel_mono_strong) (use PList.IH in blast)
  then show ?case using t
    by (auto simp: list_all2_conv_all_nth list_all_length intro: nth_equalityI)
next
  case (PDict kvs)
  then obtain kws where kws: "sequence_fields (map (map_prod id (json_encode (DecimalEncoder_default lib))) kvs) = Inr kws"
    and t: "t = PDict kws"
    by (cases "sequence_fields (map (map_prod id (json_encode (DecimalEncoder_default lib))) kvs)") auto
  from kws have l2: "list_all2 (\<lambda>kv kw. fst kw = fst kv \<and> json_encode (DecimalEncoder_default lib) (snd kv) = Inr (snd kw)) kvs kws"
    by (simp add: sequence_fields_map_list_all2)
  have "list_all2 (\<lambda>kv kw. json_able (snd kv) \<and> kw = map_prod id (floatify lib) kv \<and> decimal_free (snd kw)) kvs kws"
    using l2
  proof (rule list.rel_mono_strong)
    fix kv kw
    assume "kv \<in> set kvs" "kw \<in> set kws"
      and h: "fst kw = fst kv \<and> json_encode (DecimalEncoder_default lib) (snd kv) = Inr (snd kw)"
    then have "json_able (snd kv) \<and> snd kw = floatify lib (snd kv) \<and> decimal_free (snd kw)"
      using PDict.IH[of kv "snd kv" "snd kw"] snds.intros[of kv] by blast
    with h show "json_able (snd kv) \<and> kw = map_prod id (floatify lib) kv \<and> decimal_free (snd kw)"
      by (cases kv; cases kw) auto
  qed
  then show ?case using t
    by (auto simp: list_all2_conv_all_nth list_all_length intro: nth_equalityI)
qed (auto simp: DecimalEncoder_default_def JSONEncoder_default_def)

subsection \<open>The last segment of a path\<close>

lemma takeWhile_neq_append_notin:
  "c \<notin> set ys \<Longrightarrow> takeWhile (\<lambda>x. x \<noteq> c) (ys @ zs) = ys @ takeWhile (\<lambda>x. x \<noteq> c) zs"
  by (induction ys) auto

lemma takeWhile_neq_append_in:
  "c \<in> set ys \<Longrightarrow> takeWhile (\<lambda>x. x \<noteq> c) (ys @ zs) = takeWhile (\<lambda>x. x \<noteq> c) ys"
  by (induction ys) auto

lemma split_chr_not_Nil: "split_chr c s \<noteq> []"
  by (induction s) (auto split: list.splits)

lemma split_chr_notin: "c \<notin> set s \<Longrightarrow> split_chr c s = [s]"
  by (induction s) auto

lemma split_chr_in: "c \<in> set s \<Longrightarrow> \<exists>w v vs. split_chr c s = w # v # vs"
proof (induction s)
  case Nil
  then show ?case by simp
next
  case (Cons x xs)
  show ?case
  proof (cases "x = c")
    case True
    then show ?thesis using split_chr_not_Nil[of c xs]
      by (cases "split_chr c xs") auto
  next
    case False
    with Cons show ?thesis by auto
  qed
qed

lemma last_split_chr: "last (split_chr c s) = rev (takeWhile (\<lambda>x. x \<noteq> c) (rev s))"
proof (induction s)
  case Nil
  then show ?case by simp
next
  case (Cons x xs)
  show ?case
  proof (cases "c \<in> set xs")
    case True
    then obtain w v vs where sp: "split_chr c xs = w # v # vs"
      using split_chr_in by blast
    from True have "takeWhile (\<lambda>x. x \<noteq> c) (rev xs @ [x]) = takeWhile (\<lambda>x. x \<noteq> c) (rev xs)"
      by (simp add: takeWhile_neq_append_in)
    then show ?thesis using Cons.IH sp by simp
  next
    case False
    then show ?thesis
      by (simp add: split_chr_notin takeWhile_neq_append_notin)
  qed
qed

lemma last_elem_split:
  "bind_exc (split (PStr p) (CHR ''/'')) last_elem = Inr (after_last_slash p)"
  by (simp add: bind_exc_def last_elem_def split_chr_not_Nil last_split_chr after_last_slash_def)

lemma after_last_slash_append:
  "CHR ''/'' \<notin> set k \<Longrightarrow> after_last_slash (p @ CHR ''/'' # k) = k"
  by (simp add: after_last_slash_def takeWhile_neq_append_notin)

lemma after_last_slash_items: "CHR ''/'' \<notin> set k \<Longrightarrow> after_last_slash (''/items/'' @ k) = k"
  using after_last_slash_append[of k "''/items''"] by simp

subsection \<open>Values written to the table\<close>

lemma dynamo_value_json_able:
  "is_json v \<Longrightarrow> dynamo_value v = Inr w \<Longrightarrow> json_able w"
proof (induction v arbitrary: w)
  case (PList xs)
  then obtain ys where ys: "sequence_exc (map dynamo_value xs) = Inr ys" and w: "w = PList ys"
    by (cases "sequence_exc (map dynamo_value xs)") auto
  from ys have "list_all2 (\<lambda>x y. dynamo_value x = Inr y) xs ys"
    by (simp add: sequence_exc_map_list_all2)
  then have "list_all2 (\<lambda>x y. json_able y) xs ys"
    by (rule list.rel_mono_strong) (use PList in \<open>auto simp: list_all_iff\<close>)
  then show ?case using w
    by (auto simp: list_all2_conv_all_nth list_all_length)
next
  case (PDict kvs)
  then obtain kws where kws: "sequence_fields (map (map_prod id dynamo_value) kvs) = Inr kws"
    and w: "w = PDict kws"
    by (cases "sequence_fields (map (map_prod id dynamo_value) kvs)") auto
  from kws have "list_all2 (\<lambda>kv kw. fst kw = fst kv \<and> dynamo_value (snd kv) = Inr (snd kw)) kvs kws"
    by (simp add: sequence_fields_map_list_all2)
  then have "list_all2 (\<lambda>kv kw. json_able (snd kw)) kvs kws"
  proof (rule list.rel_mono_strong)
    fix kv kw
    assume "kv \<in> set kvs" and h: "fst kw = fst kv \<and> dynamo_value (snd kv) = Inr (snd kw)"
    moreover from \<open>kv \<in> set kvs\<close> PDict.prems(1) have "is_json (snd kv)"
      by (auto simp: list_all_iff)
    ultimately show "json_able (snd kw)"
      using PDict.IH[of kv "snd kv" "snd kw"] snds.intros[of kv] by blast
  qed
  then show ?case using w
    by (auto simp: list_all2_conv_all_nth list_all_length)
qed (auto simp: dynamo_number_def split: if_splits decimal.splits)

lemma map_of_sequence_fields:
  "sequence_fields (map (map_prod id f) kvs) = Inr kws \<Longrightarrow>
   map_of kws k = (case map_of kvs k of None \<Rightarrow> None | Some x \<Rightarrow> (case f x of Inl e \<Rightarrow> None | Inr y \<Rightarrow> Some y))"
proof (induction kvs arbitrary: kws)
  case Nil
  then show ?case by auto
next
  case (Cons kv kvs)
  then show ?case
    by (cases kv) (auto split: sum.splits)
qed

lemma map_sum_Inr_iff: "map_sum f g m = Inr y \<longleftrightarrow> (\<exists>x. m = Inr x \<and> y = g x)"
  by (cases m) auto

lemma dynamo_value_PStr: "dynamo_value x = Inr (PStr s) \<longleftrightarrow> x = PStr s"
  by (cases x) (auto simp: map_sum_Inr_iff dynamo_number_def split: decimal.splits)

lemma item_id_dynamo_value:
  "dynamo_value item = Inr v \<Longrightarrow> item_id v = item_id item"
proof (cases item)
  case (PDict kvs)
  assume dv: "dynamo_value item = Inr v"
  with PDict obtain kws where kws: "sequence_fields (map (map_prod id dynamo_value) kvs) = Inr kws"
    and v: "v = PDict kws"
    by (cases "sequence_fields (map (map_prod id dynamo_value) kvs)") auto
  have m: "map_of kws hash_key =
      (case map_of kvs hash_key of None \<Rightarrow> None
       | Some x \<Rightarrow> (case dynamo_value x of Inl e \<Rightarrow> None | Inr y \<Rightarrow> Some y))"
    using kws by (rule map_of_sequence_fields)
  show ?thesis
  proof (cases "map_of kvs hash_key")
    case None
    then show ?thesis using m v PDict by (simp add: item_id_def)
  next
    case (Some x)
    have ok: "\<exists>y. dynamo_value x = Inr y"
    proof -
      from kws have "list_all2 (\<lambda>kv kw. fst kw = fst kv \<and> dynamo_value (snd kv) = Inr (snd kw)) kvs kws"
        by (simp add: sequence_fields_map_list_all2)
      moreover from Some have "(hash_key, x) \<in> set kvs" by (rule map_of_SomeD)
      ultimately show ?thesis
        by (auto simp: list_all2_conv_all_nth in_set_conv_nth)
    qed
    then obtain y where y: "dynamo_value x = Inr y" by blast
    show ?thesis
    proof (cases "\<exists>s. x = PStr s")
      case True
      then obtain s where x: "x = PStr s" by blast
      with y have "y = PStr s" by simp
      then show ?thesis using m v PDict Some y x by (simp add: item_id_def)
    next
      case False
      then have "\<nexists>s. y = PStr s" using y dynamo_value_PStr by blast
      with False show ?thesis using m v PDict Some y
        by (cases x; cases y; simp add: item_id_def)
    qed
  qed
qed (auto simp: item_id_def map_sum_Inr_iff dynamo_number_def split: if_splits decimal.splits)

subsection \<open>The calls of the store\<close>

lemma check_key_Inr: "check_key v = Inr k \<longleftrightarrow> v = Some (PStr k) \<and> k \<noteq> []"
  by (auto simp: check_key_def split: option.splits pyval.splits if_splits)

lemma get_item_Inr:
  "get_item svc tbl k = Inr response \<longleftrightarrow>
     fault svc = None \<and> k \<noteq> [] \<and>
     response = (case map_of (contents tbl) k of None \<Rightarrow> PDict [] | Some item \<Rightarrow> PDict [(''Item'', item)])"
  by (auto simp: get_item_def check_key_def split: option.splits)

lemma put_item_Inr:
  "put_item svc tbl item = Inr tbl' \<longleftrightarrow>
     (\<exists>k v. item_id item = Some k \<and> k \<noteq> [] \<and> dynamo_value item = Inr v \<and> fault svc = None \<and>
        tbl' = tbl\<lparr>contents := AList.update k v (contents tbl)\<rparr>)"
proof (cases "\<exists>kvs. item = PDict kvs")
  case False
  then show ?thesis
    by (cases item) (auto simp: put_item_def item_id_def)
next
  case True
  then obtain kvs where item: "item = PDict kvs" by blast
  show ?thesis
  proof (cases "dynamo_value item")
    case (Inl e)
    with item show ?thesis by (simp add: put_item_def)
  next
    case (Inr v)
    then have id: "item_id v = item_id item"
      by (rule item_id_dynamo_value)
    from Inr item obtain kws where v: "v = PDict kws"
      by (auto simp: map_sum_Inr_iff)
    have ck: "check_key (map_of kws hash_key) = Inr k \<longleftrightarrow> item_id item = Some k \<and> k \<noteq> []" for k
      using id v by (auto simp: check_key_Inr item_id_def split: option.splits pyval.splits)
    show ?thesis
    proof (cases "check_key (map_of kws hash_key)")
      case (Inl e)
      with ck have "\<not> (item_id item = Some k \<and> k \<noteq> [])" for k
        by (metis sum.distinct(1))
      with Inl Inr item v show ?thesis
        by (auto simp: put_item_def split: option.splits)
    next
      case k: (Inr k)
      with ck have "item_id item = Some k" "k \<noteq> []" by auto
      with k Inr item v show ?thesis
        by (auto simp: put_item_def split: option.splits)
    qed
  qed
qed

lemma put_item_fault: "put_item svc tbl item = Inr tbl' \<Longrightarrow> fault svc = None"
  by (auto simp: put_item_Inr)

lemma scan_Inr:
  "scan svc tbl = Inr response \<Longrightarrow>
     fault svc = None \<and>
     subscript response ''Items'' =
       Inr (PList (map snd (take (max 1 (page_limit svc)) (contents tbl))))"
  by (auto simp: scan_def Let_def split: option.splits)

lemma scan_complete:
  assumes "scan svc tbl = Inr response" and "py_in ''LastEvaluatedKey'' response = Inr False"
  shows "take (max 1 (page_limit svc)) (contents tbl) = contents tbl"
  using assms by (auto simp: scan_def Let_def split: option.splits if_splits)

subsection \<open>The routes, one by one\<close>

lemma is_request_http_event: "is_request (http_event m p b) m p"
  by (simp add: is_request_def request_field_def http_event_def bind_exc_def)

lemma subscript_body_http_event:
  "subscript (http_event m p b) ''body'' = Inr (case b of None \<Rightarrow> PNone | Some s \<Rightarrow> PStr s)"
  by (simp add: http_event_def)

lemma json_dumps_plain:
  "json_dumps JSONEncoder_default (PDict [(k, PStr s)]) = Inr (JsonText (PDict [(k, PStr s)]))"
  by (simp add: json_dumps_def)

lemma json_dumps_decimal:
  "json_dumps (DecimalEncoder_default lib) v =
     (if json_able v then Inr (JsonText (floatify lib v))
      else map_sum id JsonText (json_encode (DecimalEncoder_default lib) v))"
  by (simp add: json_dumps_def json_encode_floatify)

lemma json_dumps_decimal_Inr:
  "json_dumps (DecimalEncoder_default lib) v = Inr s \<Longrightarrow>
   json_able v \<and> s = JsonText (floatify lib v) \<and> decimal_free (floatify lib v)"
  using json_encode_Inr[of lib v] by (auto simp: json_dumps_def map_sum_Inr_iff)

lemma handler_request:
  assumes "is_request event m p"
  shows "handler lib svc tbl event =
     (case dispatch lib svc tbl event (PStr m) (PStr p) of
        (Inr resp, tbl') \<Rightarrow> (Inr resp, tbl')
      | (Inl e, tbl') \<Rightarrow>
          (Inr \<lparr>statusCode = 500, headers = None,
                body = JsonText (PDict [(''error'', PStr (py_str e))])\<rparr>, tbl'))"
  using assms
  by (simp add: handler_def is_request_def json_dumps_plain bind_exc_def
           split: prod.splits sum.splits)

lemma dispatch_get_items:
  "dispatch lib svc tbl event (PStr ''GET'') (PStr ''/items'') =
     (case fault svc of
        Some e \<Rightarrow> Inl e
      | None \<Rightarrow>
          bind_exc (json_dumps (DecimalEncoder_default lib)
                      (PList (map snd (take (max 1 (page_limit svc)) (contents tbl)))))
            (\<lambda>s. Inr \<lparr>statusCode = 200,
                       headers = Some [(''Content-Type'', ''application/json'')],
                       body = s\<rparr>), tbl)"
  by (simp add: dispatch_def scan_def bind_exc_def Let_def split: option.splits)

lemma dispatch_post_items:
  "dispatch lib svc tbl event (PStr ''POST'') (PStr ''/items'') =
     (case bind_exc (subscript event ''body'') (json_loads lib) of
        Inl e \<Rightarrow> (Inl e, tbl)
      | Inr parsed \<Rightarrow>
          (case put_item svc tbl parsed of
             Inl e \<Rightarrow> (Inl e, tbl)
           | Inr tbl' \<Rightarrow>
               (Inr \<lparr>statusCode = 201,
                     headers = Some [(''Content-Type'', ''application/json'')],
                     body = JsonText (PDict [(''message'', PStr ''Item created'')])\<rparr>, tbl')))"
  by (simp add: dispatch_def json_dumps_plain bind_exc_def split: sum.splits)

lemma dispatch_get_item:
  assumes "has_prefix ''/items/'' p"
  shows "dispatch lib svc tbl event (PStr ''GET'') (PStr p) =
     (case get_item svc tbl (after_last_slash p) of
        Inl e \<Rightarrow> Inl e
      | Inr response \<Rightarrow>
          (case subscript response ''Item'' of
             Inl e \<Rightarrow>
               Inr \<lparr>statusCode = 404, headers = None,
                    body = JsonText (PDict [(''error'', PStr ''Item not found'')])\<rparr>
           | Inr item \<Rightarrow>
               bind_exc (json_dumps (DecimalEncoder_default lib) item)
                 (\<lambda>s. Inr \<lparr>statusCode = 200,
                            headers = Some [(''Content-Type'', ''application/json'')],
                            body = s\<rparr>)), tbl)"
proof -
  from assms have ne: "p \<noteq> ''/items''"
    by (auto simp: has_prefix_def)
  have le: "last_elem (split_chr (CHR ''/'') p) = Inr (after_last_slash p)"
    using last_elem_split[of p] by (simp add: bind_exc_def)
  show ?thesis
  proof (cases "get_item svc tbl (after_last_slash p)")
    case (Inl e)
    with assms ne show ?thesis
      by (simp add: dispatch_def bind_exc_def le)
  next
    case (Inr response)
    then have "response = (case map_of (contents tbl) (after_last_slash p) of
        None \<Rightarrow> PDict [] | Some item \<Rightarrow> PDict [(''Item'', item)])"
      by (simp add: get_item_Inr)
    with Inr assms ne show ?thesis
      by (simp add: dispatch_def bind_exc_def le json_dumps_plain split: option.splits)
  qed
qed

lemma dispatch_other:
  assumes "\<not> (m = ''GET'' \<and> p = ''/items'')" "\<not> (m = ''POST'' \<and> p = ''/items'')"
    "\<not> (m = ''GET'' \<and> has_prefix ''/items/'' p)"
  shows "dispatch lib svc tbl event (PStr m) (PStr p) =
     (Inr \<lparr>statusCode = 404, headers = None,
           body = JsonText (PDict [(''error'', PStr ''Not found'')])\<rparr>, tbl)"
  using assms by (auto simp: dispatch_def bind_exc_def json_dumps_plain)

subsection \<open>Frame facts and the sample texts\<close>

lemmas sample_texts = widget_text_def gadget_text_def tagged_text_def slash_text_def
  slash_text'_def no_id_text_def empty_id_text_def float_text_def long_int_text_def

lemmas sample_eval = sample_lib_def sample_loads_def sample_texts
  handler_request[OF is_request_http_event]
  dispatch_post_items dispatch_get_items subscript_body_http_event bind_exc_def put_item_def
  check_key_def dynamo_number_def hash_key_def json_dumps_decimal answering_def failing_def
  one_item_page_def

lemma posts_item_http_event:
  "posts_item lib (http_event ''POST'' ''/items'' (Some s)) item \<longleftrightarrow> loads_str lib s = Inr item"
  by (simp add: posts_item_def is_request_http_event subscript_body_http_event bind_exc_def)

lemma dispatch_get_cases:
  "(p = ''/items'' \<or> has_prefix ''/items/'' p) \<or>
   dispatch lib svc tbl event (PStr ''GET'') (PStr p) =
     (Inr \<lparr>statusCode = 404, headers = None,
           body = JsonText (PDict [(''error'', PStr ''Not found'')])\<rparr>, tbl)"
  using dispatch_other[of "''GET''" p lib svc tbl event] by auto

lemma map_of_update_other: "k' \<noteq> k \<Longrightarrow> map_of (AList.update k v al) k' = map_of al k'"
  by (simp add: update_conv')

lemma snd_dispatch_read:
  assumes "\<not> (http_method = PStr ''POST'' \<and> path = PStr ''/items'')"
  shows "snd (dispatch lib svc tbl event http_method path) = tbl"
  using assms by (auto simp: dispatch_def split: sum.splits)

lemma snd_handler_read:
  assumes "\<not> is_request event ''POST'' ''/items''"
  shows "snd (handler lib svc tbl event) = tbl"
proof (cases "request_field event ''method''")
  case (Inl e)
  then show ?thesis by (simp add: handler_def)
next
  case m: (Inr http_method)
  show ?thesis
  proof (cases "request_field event ''path''")
    case (Inl e)
    with m show ?thesis by (simp add: handler_def)
  next
    case p: (Inr path)
    from assms m p have "\<not> (http_method = PStr ''POST'' \<and> path = PStr ''/items'')"
      by (auto simp: is_request_def)
    then have "snd (dispatch lib svc tbl event http_method path) = tbl"
      by (rule snd_dispatch_read)
    with m p show ?thesis
      by (auto simp: handler_def split: prod.splits sum.splits)
  qed
qed

subsection \<open>A write followed by reads\<close>

lemma floatify_dynamo_value:
  "is_json item \<Longrightarrow> dynamo_value item = Inr v \<Longrightarrow> floatify lib v = numbers_as_float lib item"
proof (induction item arbitrary: v)
  case (PList xs)
  then obtain ys where ys: "sequence_exc (map dynamo_value xs) = Inr ys" and v: "v = PList ys"
    by (auto simp: map_sum_Inr_iff)
  from ys have "list_all2 (\<lambda>x y. dynamo_value x = Inr y) xs ys"
    by (simp add: sequence_exc_map_list_all2)
  then have "list_all2 (\<lambda>x y. floatify lib y = numbers_as_float lib x) xs ys"
    by (rule list.rel_mono_strong) (use PList in \<open>auto simp: list_all_iff\<close>)
  then have "map (floatify lib) ys = map (numbers_as_float lib) xs"
    by (auto simp: list_all2_conv_all_nth intro: nth_equalityI)
  with v show ?case by simp
next
  case (PDict kvs)
  then obtain kws where kws: "sequence_fields (map (map_prod id dynamo_value) kvs) = Inr kws"
    and v: "v = PDict kws"
    by (auto simp: map_sum_Inr_iff)
  from kws have "list_all2 (\<lambda>kv kw. fst kw = fst kv \<and> dynamo_value (snd kv) = Inr (snd kw)) kvs kws"
    by (simp add: sequence_fields_map_list_all2)
  then have "list_all2 (\<lambda>kv kw. map_prod id (floatify lib) kw = map_prod id (numbers_as_float lib) kv) kvs kws"
  proof (rule list.rel_mono_strong)
    fix kv kw
    assume "kv \<in> set kvs" and h: "fst kw = fst kv \<and> dynamo_value (snd kv) = Inr (snd kw)"
    moreover from \<open>kv \<in> set kvs\<close> PDict.prems(1) have "is_json (snd kv)"
      by (auto simp: list_all_iff)
    ultimately have "floatify lib (snd kw) = numbers_as_float lib (snd kv)"
      using PDict.IH[of kv "snd kv" "snd kw"] snds.intros[of kv] by blast
    with h show "map_prod id (floatify lib) kw = map_prod id (numbers_as_float lib) kv"
      by (cases kv; cases kw) simp
  qed
  then have "map (map_prod id (floatify lib)) kws = map (map_prod id (numbers_as_float lib)) kvs"
    by (auto simp: list_all2_conv_all_nth intro: nth_equalityI)
  with v show ?case by simp
qed (auto simp: dynamo_number_def split: if_splits)

lemma post_created_effect:
  assumes "posts_item lib event item"
    and "handler lib svc tbl event = (out, tbl')" and "created out"
  shows "\<exists>v k. dynamo_value item = Inr v \<and> item_id item = Some k \<and> k \<noteq> [] \<and>
           fault svc = None \<and> tbl' = tbl\<lparr>contents := AList.update k v (contents tbl)\<rparr>"
proof -
  from assms(1) have req: "is_request event ''POST'' ''/items''"
    and parsed: "bind_exc (subscript event ''body'') (json_loads lib) = Inr item"
    by (simp_all add: posts_item_def)
  show ?thesis
  proof (cases "put_item svc tbl item")
    case (Inl e)
    with assms(2,3) parsed show ?thesis
      by (auto simp: handler_request[OF req] dispatch_post_items created_def)
  next
    case (Inr t)
    moreover from assms(2) parsed Inr have "tbl' = t"
      by (simp add: handler_request[OF req] dispatch_post_items)
    ultimately show ?thesis
      by (auto simp: put_item_Inr)
  qed
qed

lemma get_stored_item:
  assumes "is_request event ''GET'' (''/items/'' @ k)"
    and "get_item svc tbl k = Inr response"
    and "map_of (contents tbl) k = Some v" and "json_able v"
    and "CHR ''/'' \<notin> set k"
  shows "fst (handler lib svc tbl event) =
     Inr \<lparr>statusCode = 200,
          headers = Some [(''Content-Type'', ''application/json'')],
          body = JsonText (floatify lib v)\<rparr>"
proof -
  define p where "p = ''/items/'' @ k"
  have pre: "has_prefix ''/items/'' p"
    by (simp add: has_prefix_def p_def)
  have seg: "after_last_slash p = k"
    unfolding p_def using assms(5) by (rule after_last_slash_items)
  from assms(1) have req: "is_request event ''GET'' p"
    by (simp only: p_def)
  from assms(2,3) have r: "response = PDict [(''Item'', v)]"
    by (simp add: get_item_Inr)
  show ?thesis
    using assms(2,4) r
    by (simp add: handler_request[OF req] dispatch_get_item[OF pre] seg json_dumps_decimal
          bind_exc_def)
qed

lemma list_all_update:
  "list_all P al \<Longrightarrow> P (k, v) \<Longrightarrow> list_all P (AList.update k v al)"
  by (induction al) auto

lemma posts_effect:
  assumes "invoke_all lib tbl0 calls = (outs, tbl)"
    and "list_all created outs"
    and "list_all2 (posts_item lib) (map snd calls) its"
    and "list_all is_json its"
    and "distinct (map item_id its)"
    and "list_all (\<lambda>kv. json_able (snd kv)) (contents tbl0)"
  shows "list_all (\<lambda>kv. json_able (snd kv)) (contents tbl) \<and>
     (\<forall>it \<in> set its. \<exists>v k. dynamo_value it = Inr v \<and> item_id it = Some k \<and>
        map_of (contents tbl) k = Some v) \<and>
     (\<forall>k. Some k \<notin> item_id ` set its \<longrightarrow> map_of (contents tbl) k = map_of (contents tbl0) k)"
  using assms
proof (induction calls arbitrary: tbl0 outs its)
  case Nil
  then show ?case by simp
next
  case (Cons call calls)
  obtain svc ev where call: "call = (svc, ev)"
    by (cases call)
  from Cons.prems(3) call obtain it its' where its: "its = it # its'"
    and l: "posts_item lib ev it" and ls: "list_all2 (posts_item lib) (map snd calls) its'"
    by (auto simp: list_all2_Cons1)
  obtain out tbl1 where h: "handler lib svc tbl0 ev = (out, tbl1)"
    by (cases "handler lib svc tbl0 ev")
  obtain outs' tbl2 where r: "invoke_all lib tbl1 calls = (outs', tbl2)"
    by (cases "invoke_all lib tbl1 calls")
  from Cons.prems(1) call h r have outs: "outs = out # outs'" and t2: "tbl2 = tbl"
    by auto
  from Cons.prems(2) outs have c: "created out" and cs: "list_all created outs'"
    by auto
  from post_created_effect[OF l h c]
  obtain v k where v: "dynamo_value it = Inr v" and k: "item_id it = Some k"
    and t1: "tbl1 = tbl0\<lparr>contents := AList.update k v (contents tbl0)\<rparr>"
    by blast
  from Cons.prems(4) its have j: "is_json it" and js: "list_all is_json its'"
    by auto
  from j v have jv: "json_able v"
    by (rule dynamo_value_json_able)
  from Cons.prems(6) jv t1 have a1: "list_all (\<lambda>kv. json_able (snd kv)) (contents tbl1)"
    by (simp add: list_all_update)
  from Cons.prems(5) its have d: "distinct (map item_id its')" and nk: "Some k \<notin> item_id ` set its'"
    using k by auto
  from Cons.IH[OF r[unfolded t2] cs ls js d a1]
  have ih2: "list_all (\<lambda>kv. json_able (snd kv)) (contents tbl)"
    and ih3: "\<forall>it \<in> set its'. \<exists>v k. dynamo_value it = Inr v \<and> item_id it = Some k \<and>
        map_of (contents tbl) k = Some v"
    and ih4: "\<forall>k. Some k \<notin> item_id ` set its' \<longrightarrow> map_of (contents tbl) k = map_of (contents tbl1) k"
    by auto
  from ih4 nk t1 have "map_of (contents tbl) k = Some v"
    by (simp add: update_conv')
  with v k ih3 its have g3: "\<forall>it \<in> set its. \<exists>v k. dynamo_value it = Inr v \<and> item_id it = Some k \<and>
        map_of (contents tbl) k = Some v"
    by auto
  have g4: "\<forall>k'. Some k' \<notin> item_id ` set its \<longrightarrow> map_of (contents tbl) k' = map_of (contents tbl0) k'"
  proof (intro allI impI)
    fix k'
    assume n: "Some k' \<notin> item_id ` set its"
    with its k have "k' \<noteq> k" and "Some k' \<notin> item_id ` set its'"
      by auto
    with ih4 t1 show "map_of (contents tbl) k' = map_of (contents tbl0) k'"
      by (simp add: map_of_update_other)
  qed
  from ih2 g3 g4 show ?case by blast
qed

section \<open>The claims\<close>

text \<open>
  C1, as amended. For every event from which \<open>event['requestContext']['http']\<close> gives a
  method and a path, the handler returns a response and raises nothing: whatever the
  \<open>try\<close> body raises becomes the response 500 with the body \<open>{"error": str(e)}\<close>, and
  what it returns is returned.
\<close>

theorem handler_catches_dispatch_errors:
  assumes "request_field event ''method'' = Inr http_method"
    and "request_field event ''path'' = Inr path"
  shows "\<exists>resp. handler lib svc tbl event =
             (Inr resp, snd (dispatch lib svc tbl event http_method path)) \<and>
     (\<forall>e. fst (dispatch lib svc tbl event http_method path) = Inl e \<longrightarrow>
        resp = \<lparr>statusCode = 500, headers = None,
                body = JsonText (PDict [(''error'', PStr (py_str e))])\<rparr>) \<and>
     (\<forall>r. fst (dispatch lib svc tbl event http_method path) = Inr r \<longrightarrow> resp = r)"
  using assms
  by (cases "dispatch lib svc tbl event http_method path")
     (auto simp: handler_def json_dumps_plain bind_exc_def split: sum.splits)

theorem handler_catches_dispatch_errors_witness:
  "request_field (http_event ''POST'' ''/items'' None :: decimal pyval) ''method'' = Inr (PStr ''POST'') \<and>
   request_field (http_event ''POST'' ''/items'' None :: decimal pyval) ''path'' = Inr (PStr ''/items'') \<and>
   fst (dispatch sample_lib answering empty_table (http_event ''POST'' ''/items'' None)
          (PStr ''POST'') (PStr ''/items'')) =
     Inl (TypeError ''the JSON object must be str, bytes or bytearray, not NoneType'') \<and>
   handler sample_lib answering empty_table (http_event ''POST'' ''/items'' None) =
     (Inr \<lparr>statusCode = 500, headers = None,
           body = JsonText (PDict [(''error'',
                    PStr ''the JSON object must be str, bytes or bytearray, not NoneType'')])\<rparr>,
      empty_table)"
proof -
  let ?ev = "http_event ''POST'' ''/items'' None :: decimal pyval"
  have m: "request_field ?ev ''method'' = Inr (PStr ''POST'')"
    and p: "request_field ?ev ''path'' = Inr (PStr ''/items'')"
    by (simp_all add: request_field_def http_event_def bind_exc_def)
  have d: "dispatch sample_lib answering empty_table ?ev (PStr ''POST'') (PStr ''/items'') =
      (Inl (TypeError ''the JSON object must be str, bytes or bytearray, not NoneType''), empty_table)"
    by (simp add: dispatch_post_items subscript_body_http_event bind_exc_def)
  from handler_catches_dispatch_errors[OF m p, of sample_lib answering empty_table] d
  show ?thesis using m p by auto
qed

text \<open>
  C1 as stated fails: the two reads of the event stand before the \<open>try\<close> statement, so
  an event without \<open>requestContext.http\<close> makes the handler raise \<open>KeyError\<close>.
\<close>

theorem handler_raises_counterexample:
  "handler sample_lib answering empty_table
     (PDict [(''requestContext'', PDict [(''httpMethod'', PStr ''GET'')]), (''body'', PNone)]) =
   (Inl (KeyError ''http''), empty_table)"
  by (simp add: handler_def request_field_def bind_exc_def)

text \<open>
  C2, as amended. An item, a JSON object with a string \<open>id\<close> that contains no \<open>/\<close>, has
  been written by a \<open>POST /items\<close> answered with 201, and the store answers the
  \<open>get_item\<close> call of a later \<open>GET /items/{id}\<close>. Then that \<open>GET\<close> returns 200 and a body
  JSON-equal to the written item, each number having gone through the conversion to
  \<open>Decimal\<close> and back to \<open>float\<close>.
\<close>

theorem post_then_get:
  assumes "posts_item lib post item" and "is_json item" and "item_id item = Some k"
    and "CHR ''/'' \<notin> set k"
    and "handler lib svc tbl post = (out, tbl')" and "created out"
    and "is_request get ''GET'' (''/items/'' @ k)"
    and "get_item svc' tbl' k = Inr response"
  shows "fst (handler lib svc' tbl' get) =
     Inr \<lparr>statusCode = 200,
          headers = Some [(''Content-Type'', ''application/json'')],
          body = JsonText (numbers_as_float lib item)\<rparr>"
proof -
  from post_created_effect[OF assms(1,5,6)] assms(3)
  obtain v where v: "dynamo_value item = Inr v"
    and t: "tbl' = tbl\<lparr>contents := AList.update k v (contents tbl)\<rparr>"
    by auto
  from t have m: "map_of (contents tbl') k = Some v"
    by (simp add: update_conv')
  from assms(2) v have j: "json_able v"
    by (rule dynamo_value_json_able)
  show ?thesis
    using get_stored_item[OF assms(7,8) m j assms(4), of lib]
      floatify_dynamo_value[OF assms(2) v, of lib]
    by simp
qed

theorem post_then_get_witness:
  "posts_item sample_lib (http_event ''POST'' ''/items'' (Some gadget_text))
     (PDict [(''id'', PStr ''42''), (''name'', PStr ''gadget''), (''qty'', PInt 3)]) \<and>
   is_json (PDict [(''id'', PStr ''42''), (''name'', PStr ''gadget''), (''qty'', PInt 3)] :: decimal pyval) \<and>
   item_id (PDict [(''id'', PStr ''42''), (''name'', PStr ''gadget''), (''qty'', PInt 3)] :: decimal pyval) = Some ''42'' \<and>
   CHR ''/'' \<notin> set ''42'' \<and>
   handler sample_lib answering empty_table (http_event ''POST'' ''/items'' (Some gadget_text)) =
     (Inr \<lparr>statusCode = 201,
           headers = Some [(''Content-Type'', ''application/json'')],
           body = JsonText (PDict [(''message'', PStr ''Item created'')])\<rparr>,
      \<lparr>contents = [(''42'', PDict [(''id'', PStr ''42''), (''name'', PStr ''gadget''),
                                  (''qty'', PDecimal (Decimal 3 0))])]\<rparr>) \<and>
   is_request (http_event ''GET'' ''/items/42'' None :: decimal pyval) ''GET'' (''/items/'' @ ''42'') \<and>
   get_item answering
     (\<lparr>contents = [(''42'', PDict [(''id'', PStr ''42''), (''name'', PStr ''gadget''),
                                  (''qty'', PDecimal (Decimal 3 0))])]\<rparr> :: decimal table) ''42'' =
     Inr (PDict [(''Item'', PDict [(''id'', PStr ''42''), (''name'', PStr ''gadget''),
                                   (''qty'', PDecimal (Decimal 3 0))])]) \<and>
   fst (handler sample_lib answering
          \<lparr>contents = [(''42'', PDict [(''id'', PStr ''42''), (''name'', PStr ''gadget''),
                                      (''qty'', PDecimal (Decimal 3 0))])]\<rparr>
          (http_event ''GET'' ''/items/42'' None)) =
     Inr \<lparr>statusCode = 200,
          headers = Some [(''Content-Type'', ''application/json'')],
          body = JsonText (PDict [(''id'', PStr ''42''), (''name'', PStr ''gadget''),
                                  (''qty'', PFloat (Decimal 3 0))])\<rparr>"
proof -
  let ?item = "PDict [(''id'', PStr ''42''), (''name'', PStr ''gadget''), (''qty'', PInt 3)] :: decimal pyval"
  let ?tbl = "\<lparr>contents = [(''42'', PDict [(''id'', PStr ''42''), (''name'', PStr ''gadget''),
                                  (''qty'', PDecimal (Decimal 3 0))])]\<rparr> :: decimal table"
  let ?ok = "\<lparr>statusCode = 201,
           headers = Some [(''Content-Type'', ''application/json'')],
           body = JsonText (PDict [(''message'', PStr ''Item created'')])\<rparr> :: decimal response"
  have l: "posts_item sample_lib (http_event ''POST'' ''/items'' (Some gadget_text)) ?item"
    by (simp add: posts_item_http_event sample_lib_def sample_loads_def sample_texts)
  have j: "is_json ?item" by simp
  have i: "item_id ?item = Some ''42''"
    by (simp add: item_id_def hash_key_def)
  have n: "CHR ''/'' \<notin> set ''42''" by simp
  have h: "handler sample_lib answering empty_table (http_event ''POST'' ''/items'' (Some gadget_text)) =
      (Inr ?ok, ?tbl)"
    by (simp add: sample_eval empty_table_def)
  have c: "created (Inr ?ok)"
    by (simp add: created_def)
  have g: "is_request (http_event ''GET'' ''/items/42'' None :: decimal pyval) ''GET'' (''/items/'' @ ''42'')"
    using is_request_http_event[of "''GET''" "''/items/42''" None] by simp
  have r: "get_item answering ?tbl ''42'' =
      Inr (PDict [(''Item'', PDict [(''id'', PStr ''42''), (''name'', PStr ''gadget''),
                                   (''qty'', PDecimal (Decimal 3 0))])])"
    by (simp add: get_item_def check_key_def answering_def)
  from post_then_get[OF l j i n h c g r] l j i n h g r show ?thesis
    by (simp add: sample_lib_def)
qed

text \<open>
  C2 as stated fails. For an \<open>id\<close> with a \<open>/\<close> in it: the item with \<open>id\<close> \<open>a/b\<close> is
  written, and \<open>GET /items/a/b\<close> looks up \<open>b\<close> and answers 404. And when the store fails
  the call of the \<open>GET\<close>: the item with \<open>id\<close> \<open>42\<close> is written, and \<open>GET /items/42\<close>
  answers 500.
\<close>

theorem slash_id_counterexample:
  "loads_str sample_lib slash_text = Inr (PDict [(''id'', PStr ''a/b''), (''n'', PInt 5)]) \<and>
   handler sample_lib answering empty_table (http_event ''POST'' ''/items'' (Some slash_text)) =
     (Inr \<lparr>statusCode = 201,
           headers = Some [(''Content-Type'', ''application/json'')],
           body = JsonText (PDict [(''message'', PStr ''Item created'')])\<rparr>, slash_table) \<and>
   fst (handler sample_lib answering slash_table (http_event ''GET'' ''/items/a/b'' None)) =
     Inr \<lparr>statusCode = 404, headers = None,
          body = JsonText (PDict [(''error'', PStr ''Item not found'')])\<rparr> \<and>
   handler sample_lib answering empty_table (http_event ''POST'' ''/items'' (Some widget_text)) =
     (Inr \<lparr>statusCode = 201,
           headers = Some [(''Content-Type'', ''application/json'')],
           body = JsonText (PDict [(''message'', PStr ''Item created'')])\<rparr>,
      \<lparr>contents = [(''42'', PDict [(''id'', PStr ''42''), (''name'', PStr ''widget'')])]\<rparr>) \<and>
   fst (handler sample_lib failing
          \<lparr>contents = [(''42'', PDict [(''id'', PStr ''42''), (''name'', PStr ''widget'')])]\<rparr>
          (http_event ''GET'' ''/items/42'' None)) =
     Inr \<lparr>statusCode = 500, headers = None,
          body = JsonText (PDict [(''error'', PStr ''ProvisionedThroughputExceededException'')])\<rparr>"
proof -
  have p: "has_prefix ''/items/'' ''/items/a/b''" and p': "has_prefix ''/items/'' ''/items/42''"
    by (simp_all add: has_prefix_def)
  have a: "after_last_slash ''/items/a/b'' = ''b''" and a': "after_last_slash ''/items/42'' = ''42''"
    by (simp_all add: after_last_slash_def)
  show ?thesis
    by (simp add: sample_eval dispatch_get_item[OF p] dispatch_get_item[OF p'] a a' get_item_def
          empty_table_def slash_table_def)
qed

text \<open>
  C3. A request whose method and path match none of the three routes (\<open>GET /items\<close>,
  \<open>POST /items\<close>, \<open>GET /items/...\<close>), such as \<open>DELETE /items\<close>, is answered with
  exactly 404 and the body \<open>{"error": "Not found"}\<close>; the table is left as it was.
\<close>

theorem unmatched_route_not_found:
  assumes "is_request event m p"
    and "\<not> (m = ''GET'' \<and> p = ''/items'')"
    and "\<not> (m = ''POST'' \<and> p = ''/items'')"
    and "\<not> (m = ''GET'' \<and> has_prefix ''/items/'' p)"
  shows "handler lib svc tbl event =
     (Inr \<lparr>statusCode = 404, headers = None,
           body = JsonText (PDict [(''error'', PStr ''Not found'')])\<rparr>, tbl)"
  by (simp add: handler_request[OF assms(1)] dispatch_other[OF assms(2-4)])

theorem unmatched_route_not_found_witness:
  "is_request (http_event ''DELETE'' ''/items'' None :: decimal pyval) ''DELETE'' ''/items'' \<and>
   handler sample_lib answering empty_table (http_event ''DELETE'' ''/items'' None) =
     (Inr \<lparr>statusCode = 404, headers = None,
           body = JsonText (PDict [(''error'', PStr ''Not found'')])\<rparr>, empty_table)"
  using unmatched_route_not_found[OF is_request_http_event[of "''DELETE''" "''/items''" None],
      of sample_lib answering empty_table]
  by (simp add: has_prefix_def is_request_http_event)

text \<open>
  C4, as amended. \<open>GET\<close> on a path that starts with \<open>/items/\<close>, the store answering the
  \<open>get_item\<close> call (which it refuses for an empty key): when the table holds an item
  under the last segment of the path and the item can be written as JSON, the response
  is 200 with the item's JSON as body; when it holds none, the response is exactly 404
  with the body \<open>{"error": "Item not found"}\<close>.
\<close>

theorem get_item_by_id:
  assumes "is_request event ''GET'' p" and "has_prefix ''/items/'' p"
    and "get_item svc tbl (after_last_slash p) = Inr response"
  shows "(\<forall>item. map_of (contents tbl) (after_last_slash p) = Some item \<and> json_able item \<longrightarrow>
            fst (handler lib svc tbl event) =
              Inr \<lparr>statusCode = 200,
                   headers = Some [(''Content-Type'', ''application/json'')],
                   body = JsonText (floatify lib item)\<rparr>) \<and>
         (map_of (contents tbl) (after_last_slash p) = None \<longrightarrow>
            fst (handler lib svc tbl event) =
              Inr \<lparr>statusCode = 404, headers = None,
                   body = JsonText (PDict [(''error'', PStr ''Item not found'')])\<rparr>)"
proof -
  from assms(3) have "response = (case map_of (contents tbl) (after_last_slash p) of
      None \<Rightarrow> PDict [] | Some item \<Rightarrow> PDict [(''Item'', item)])"
    by (simp add: get_item_Inr)
  with assms(3) show ?thesis
    by (simp add: handler_request[OF assms(1)] dispatch_get_item[OF assms(2)] json_dumps_decimal
          bind_exc_def)
qed

theorem get_item_by_id_witness:
  "is_request (http_event ''GET'' ''/items/42'' None :: decimal pyval) ''GET'' ''/items/42'' \<and>
   has_prefix ''/items/'' ''/items/42'' \<and>
   get_item answering widget_table (after_last_slash ''/items/42'') =
     Inr (PDict [(''Item'', PDict [(''id'', PStr ''42''), (''price'', PDecimal (Decimal 995 (-2)))])]) \<and>
   fst (handler sample_lib answering widget_table (http_event ''GET'' ''/items/42'' None)) =
     Inr \<lparr>statusCode = 200,
          headers = Some [(''Content-Type'', ''application/json'')],
          body = JsonText (PDict [(''id'', PStr ''42''), (''price'', PFloat (Decimal 995 (-2)))])\<rparr> \<and>
   is_request (http_event ''GET'' ''/items/43'' None :: decimal pyval) ''GET'' ''/items/43'' \<and>
   has_prefix ''/items/'' ''/items/43'' \<and>
   get_item answering widget_table (after_last_slash ''/items/43'') = Inr (PDict []) \<and>
   fst (handler sample_lib answering widget_table (http_event ''GET'' ''/items/43'' None)) =
     Inr \<lparr>statusCode = 404, headers = None,
          body = JsonText (PDict [(''error'', PStr ''Item not found'')])\<rparr>"
proof -
  have p1: "has_prefix ''/items/'' ''/items/42''" and p2: "has_prefix ''/items/'' ''/items/43''"
    by (simp_all add: has_prefix_def)
  have a1: "after_last_slash ''/items/42'' = ''42''" and a2: "after_last_slash ''/items/43'' = ''43''"
    by (simp_all add: after_last_slash_def)
  have g1: "get_item answering widget_table (after_last_slash ''/items/42'') =
     Inr (PDict [(''Item'', PDict [(''id'', PStr ''42''), (''price'', PDecimal (Decimal 995 (-2)))])])"
    and g2: "get_item answering widget_table (after_last_slash ''/items/43'') = Inr (PDict [])"
    by (simp_all add: a1 a2 get_item_def check_key_def answering_def widget_table_def)
  show ?thesis
    using get_item_by_id[OF is_request_http_event[of "''GET''" "''/items/42''" None] p1 g1, of sample_lib]
      get_item_by_id[OF is_request_http_event[of "''GET''" "''/items/43''" None] p2 g2, of sample_lib]
      g1 g2
    by (simp add: p1 p2 a1 a2 widget_table_def sample_lib_def is_request_http_event)
qed

text \<open>
  C4 as stated fails. \<open>GET /items/\<close> asks for the empty key, under which there is no
  item: the store refuses the call and the response is 500, not 404. \<open>GET /items/42\<close>
  when the store fails the call: the item is there and the response is 500, not 200.
  \<open>GET /items/5\<close> for an item with a binary attribute: the response is 500, not 200.
\<close>

theorem get_item_by_id_counterexample:
  "map_of (contents widget_table) (after_last_slash ''/items/'') = None \<and>
   fst (handler sample_lib answering widget_table (http_event ''GET'' ''/items/'' None)) =
     Inr \<lparr>statusCode = 500, headers = None,
          body = JsonText (PDict [(''error'', PStr ''ValidationException: The AttributeValue for a key attribute cannot contain an empty string value. Key: id'')])\<rparr> \<and>
   map_of (contents widget_table) (after_last_slash ''/items/42'') =
     Some (PDict [(''id'', PStr ''42''), (''price'', PDecimal (Decimal 995 (-2)))]) \<and>
   fst (handler sample_lib failing widget_table (http_event ''GET'' ''/items/42'' None)) =
     Inr \<lparr>statusCode = 500, headers = None,
          body = JsonText (PDict [(''error'', PStr ''ProvisionedThroughputExceededException'')])\<rparr> \<and>
   map_of (contents binary_table) (after_last_slash ''/items/5'') =
     Some (PDict [(''id'', PStr ''5''), (''blob'', PBinary ''xyz'')]) \<and>
   fst (handler sample_lib answering binary_table (http_event ''GET'' ''/items/5'' None)) =
     Inr \<lparr>statusCode = 500, headers = None,
          body = JsonText (PDict [(''error'', PStr ''Object of type Binary is not JSON serializable'')])\<rparr>"
proof -
  have p: "has_prefix ''/items/'' ''/items/''" "has_prefix ''/items/'' ''/items/42''"
    "has_prefix ''/items/'' ''/items/5''"
    by (simp_all add: has_prefix_def)
  have a: "after_last_slash ''/items/'' = []" "after_last_slash ''/items/42'' = ''42''"
    "after_last_slash ''/items/5'' = ''5''"
    by (simp_all add: after_last_slash_def)
  show ?thesis
    by (simp add: sample_eval dispatch_get_item[OF p(1)] dispatch_get_item[OF p(2)]
          dispatch_get_item[OF p(3)] a get_item_def widget_table_def binary_table_def
          json_dumps_def DecimalEncoder_default_def JSONEncoder_default_def)
qed

text \<open>
  C5, as amended. A \<open>POST /items\<close> whose body parses as JSON and whose \<open>put_item\<close> call
  succeeds has written the item under its \<open>id\<close>, replacing the one there, and returns
  201 with the body \<open>{"message": "Item created"}\<close>. The call succeeds when the body is
  a JSON object with a non-empty string \<open>id\<close>, its values can be written (no float and
  no integer of more than 38 digits among them) and the store does not fail the call.
\<close>

theorem post_item_created:
  assumes "posts_item lib event item"
  shows "(put_item svc tbl item = Inr tbl' \<longrightarrow>
            handler lib svc tbl event =
              (Inr \<lparr>statusCode = 201,
                    headers = Some [(''Content-Type'', ''application/json'')],
                    body = JsonText (PDict [(''message'', PStr ''Item created'')])\<rparr>, tbl') \<and>
            (\<exists>k v. item_id item = Some k \<and> k \<noteq> [] \<and> dynamo_value item = Inr v \<and>
               tbl' = tbl\<lparr>contents := AList.update k v (contents tbl)\<rparr>)) \<and>
         (item_id item = Some k \<and> k \<noteq> [] \<and> dynamo_value item = Inr v \<and> fault svc = None \<longrightarrow>
            handler lib svc tbl event =
              (Inr \<lparr>statusCode = 201,
                    headers = Some [(''Content-Type'', ''application/json'')],
                    body = JsonText (PDict [(''message'', PStr ''Item created'')])\<rparr>,
               tbl\<lparr>contents := AList.update k v (contents tbl)\<rparr>))"
proof -
  from assms have req: "is_request event ''POST'' ''/items''"
    and parsed: "bind_exc (subscript event ''body'') (json_loads lib) = Inr item"
    by (simp_all add: posts_item_def)
  have ok: "handler lib svc tbl event =
      (Inr \<lparr>statusCode = 201,
            headers = Some [(''Content-Type'', ''application/json'')],
            body = JsonText (PDict [(''message'', PStr ''Item created'')])\<rparr>, t)"
    if "put_item svc tbl item = Inr t" for t
    using that parsed by (simp add: handler_request[OF req] dispatch_post_items)
  have "put_item svc tbl item = Inr (tbl\<lparr>contents := AList.update k v (contents tbl)\<rparr>)"
    if "item_id item = Some k \<and> k \<noteq> [] \<and> dynamo_value item = Inr v \<and> fault svc = None"
    using that by (auto simp: put_item_Inr)
  with ok show ?thesis
    by (auto simp: put_item_Inr)
qed

theorem post_item_created_witness:
  "posts_item sample_lib (http_event ''POST'' ''/items'' (Some gadget_text))
     (PDict [(''id'', PStr ''42''), (''name'', PStr ''gadget''), (''qty'', PInt 3)]) \<and>
   put_item answering widget_table
     (PDict [(''id'', PStr ''42''), (''name'', PStr ''gadget''), (''qty'', PInt 3)]) =
     Inr \<lparr>contents = [(''42'', PDict [(''id'', PStr ''42''), (''name'', PStr ''gadget''),
                                     (''qty'', PDecimal (Decimal 3 0))])]\<rparr> \<and>
   handler sample_lib answering widget_table (http_event ''POST'' ''/items'' (Some gadget_text)) =
     (Inr \<lparr>statusCode = 201,
           headers = Some [(''Content-Type'', ''application/json'')],
           body = JsonText (PDict [(''message'', PStr ''Item created'')])\<rparr>,
      \<lparr>contents = [(''42'', PDict [(''id'', PStr ''42''), (''name'', PStr ''gadget''),
                                  (''qty'', PDecimal (Decimal 3 0))])]\<rparr>)"
proof -
  let ?item = "PDict [(''id'', PStr ''42''), (''name'', PStr ''gadget''), (''qty'', PInt 3)] :: decimal pyval"
  have l: "posts_item sample_lib (http_event ''POST'' ''/items'' (Some gadget_text)) ?item"
    by (simp add: posts_item_http_event sample_lib_def sample_loads_def sample_texts)
  have w: "put_item answering widget_table ?item =
     Inr \<lparr>contents = [(''42'', PDict [(''id'', PStr ''42''), (''name'', PStr ''gadget''),
                                     (''qty'', PDecimal (Decimal 3 0))])]\<rparr>"
    by (simp add: put_item_def check_key_def dynamo_number_def hash_key_def answering_def
          widget_table_def)
  show ?thesis
    using post_item_created[OF l, of answering widget_table] l w
    by simp
qed

text \<open>
  C5 as stated fails: each of these bodies parses as JSON and is answered with 500,
  nothing being written. A body without \<open>id\<close>; a body whose \<open>id\<close> is the empty string;
  a body with a float; a body with an integer of 39 digits. So is a well-formed item
  when the store fails the call.
\<close>

theorem post_without_id_counterexample:
  "loads_str sample_lib no_id_text = Inr (PDict [(''name'', PStr ''widget'')]) \<and>
   handler sample_lib answering empty_table (http_event ''POST'' ''/items'' (Some no_id_text)) =
     (Inr \<lparr>statusCode = 500, headers = None,
           body = JsonText (PDict [(''error'',
                    PStr ''ValidationException: Missing the key id in the item'')])\<rparr>, empty_table) \<and>
   loads_str sample_lib empty_id_text = Inr (PDict [(''id'', PStr [])]) \<and>
   handler sample_lib answering empty_table (http_event ''POST'' ''/items'' (Some empty_id_text)) =
     (Inr \<lparr>statusCode = 500, headers = None,
           body = JsonText (PDict [(''error'', PStr ''ValidationException: The AttributeValue for a key attribute cannot contain an empty string value. Key: id'')])\<rparr>,
      empty_table) \<and>
   loads_str sample_lib float_text =
     Inr (PDict [(''id'', PStr ''9''), (''price'', PFloat (Decimal 999 (-2)))]) \<and>
   handler sample_lib answering empty_table (http_event ''POST'' ''/items'' (Some float_text)) =
     (Inr \<lparr>statusCode = 500, headers = None,
           body = JsonText (PDict [(''error'',
                    PStr ''Float types are not supported. Use Decimal types instead.'')])\<rparr>,
      empty_table) \<and>
   loads_str sample_lib long_int_text = Inr (PDict [(''id'', PStr ''8''), (''n'', PInt (10 ^ 38))]) \<and>
   handler sample_lib answering empty_table (http_event ''POST'' ''/items'' (Some long_int_text)) =
     (Inr \<lparr>statusCode = 500, headers = None,
           body = JsonText (PDict [(''error'',
                    PStr ''[<class decimal.Inexact>, <class decimal.Rounded>]'')])\<rparr>,
      empty_table) \<and>
   loads_str sample_lib widget_text = Inr (PDict [(''id'', PStr ''42''), (''name'', PStr ''widget'')]) \<and>
   handler sample_lib failing empty_table (http_event ''POST'' ''/items'' (Some widget_text)) =
     (Inr \<lparr>statusCode = 500, headers = None,
           body = JsonText (PDict [(''error'', PStr ''ProvisionedThroughputExceededException'')])\<rparr>,
      empty_table)"
  by (simp add: sample_eval empty_table_def)

text \<open>
  C6, as amended. The table holds an item under an \<open>id\<close> that contains no \<open>/\<close>, a
  \<open>POST /items\<close> with that \<open>id\<close> in its body is answered with 201, and the store
  answers the \<open>get_item\<close> call of a later \<open>GET /items/{id}\<close>. Then that \<open>GET\<close> returns
  the value just written, whatever the old one was, and the table has the keys it had:
  the item was replaced, not added.
\<close>

theorem post_overwrites:
  assumes "map_of (contents tbl) k = Some old"
    and "posts_item lib post item" and "is_json item" and "item_id item = Some k"
    and "CHR ''/'' \<notin> set k"
    and "handler lib svc tbl post = (out, tbl')" and "created out"
    and "is_request get ''GET'' (''/items/'' @ k)"
    and "get_item svc' tbl' k = Inr response"
  shows "fst (handler lib svc' tbl' get) =
     Inr \<lparr>statusCode = 200,
          headers = Some [(''Content-Type'', ''application/json'')],
          body = JsonText (numbers_as_float lib item)\<rparr> \<and>
     map fst (contents tbl') = map fst (contents tbl)"
proof -
  from post_created_effect[OF assms(2,6,7)] assms(4)
  obtain v where v: "dynamo_value item = Inr v"
    and t: "tbl' = tbl\<lparr>contents := AList.update k v (contents tbl)\<rparr>"
    by auto
  from t have m: "map_of (contents tbl') k = Some v"
    by (simp add: update_conv')
  from assms(3) v have j: "json_able v"
    by (rule dynamo_value_json_able)
  from assms(1) have "k \<in> fst ` set (contents tbl)"
    by (auto dest: map_of_SomeD intro: rev_image_eqI)
  with t have "map fst (contents tbl') = map fst (contents tbl)"
    by (simp add: update_keys)
  then show ?thesis
    using get_stored_item[OF assms(8,9) m j assms(5), of lib]
      floatify_dynamo_value[OF assms(3) v, of lib]
    by simp
qed

theorem post_overwrites_witness:
  "map_of (contents widget_table) ''42'' =
     Some (PDict [(''id'', PStr ''42''), (''price'', PDecimal (Decimal 995 (-2)))]) \<and>
   posts_item sample_lib (http_event ''POST'' ''/items'' (Some gadget_text))
     (PDict [(''id'', PStr ''42''), (''name'', PStr ''gadget''), (''qty'', PInt 3)]) \<and>
   handler sample_lib answering widget_table (http_event ''POST'' ''/items'' (Some gadget_text)) =
     (Inr \<lparr>statusCode = 201,
           headers = Some [(''Content-Type'', ''application/json'')],
           body = JsonText (PDict [(''message'', PStr ''Item created'')])\<rparr>,
      \<lparr>contents = [(''42'', PDict [(''id'', PStr ''42''), (''name'', PStr ''gadget''),
                                  (''qty'', PDecimal (Decimal 3 0))])]\<rparr>) \<and>
   is_request (http_event ''GET'' ''/items/42'' None :: decimal pyval) ''GET'' (''/items/'' @ ''42'') \<and>
   get_item answering
     (\<lparr>contents = [(''42'', PDict [(''id'', PStr ''42''), (''name'', PStr ''gadget''),
                                  (''qty'', PDecimal (Decimal 3 0))])]\<rparr> :: decimal table) ''42'' =
     Inr (PDict [(''Item'', PDict [(''id'', PStr ''42''), (''name'', PStr ''gadget''),
                                   (''qty'', PDecimal (Decimal 3 0))])]) \<and>
   fst (handler sample_lib answering
          \<lparr>contents = [(''42'', PDict [(''id'', PStr ''42''), (''name'', PStr ''gadget''),
                                      (''qty'', PDecimal (Decimal 3 0))])]\<rparr>
          (http_event ''GET'' ''/items/42'' None)) =
     Inr \<lparr>statusCode = 200,
          headers = Some [(''Content-Type'', ''application/json'')],
          body = JsonText (PDict [(''id'', PStr ''42''), (''name'', PStr ''gadget''),
                                  (''qty'', PFloat (Decimal 3 0))])\<rparr> \<and>
   map fst (contents widget_table) = [''42'']"
proof -
  let ?item = "PDict [(''id'', PStr ''42''), (''name'', PStr ''gadget''), (''qty'', PInt 3)] :: decimal pyval"
  let ?tbl = "\<lparr>contents = [(''42'', PDict [(''id'', PStr ''42''), (''name'', PStr ''gadget''),
                                  (''qty'', PDecimal (Decimal 3 0))])]\<rparr> :: decimal table"
  let ?ok = "\<lparr>statusCode = 201,
           headers = Some [(''Content-Type'', ''application/json'')],
           body = JsonText (PDict [(''message'', PStr ''Item created'')])\<rparr> :: decimal response"
  have o: "map_of (contents widget_table) ''42'' =
     Some (PDict [(''id'', PStr ''42''), (''price'', PDecimal (Decimal 995 (-2)))])"
    by (simp add: widget_table_def)
  have l: "posts_item sample_lib (http_event ''POST'' ''/items'' (Some gadget_text)) ?item"
    by (simp add: posts_item_http_event sample_lib_def sample_loads_def sample_texts)
  have j: "is_json ?item" by simp
  have i: "item_id ?item = Some ''42''"
    by (simp add: item_id_def hash_key_def)
  have n: "CHR ''/'' \<notin> set ''42''" by simp
  have h: "handler sample_lib answering widget_table (http_event ''POST'' ''/items'' (Some gadget_text)) =
      (Inr ?ok, ?tbl)"
    by (simp add: sample_eval widget_table_def)
  have c: "created (Inr ?ok)"
    by (simp add: created_def)
  have g: "is_request (http_event ''GET'' ''/items/42'' None :: decimal pyval) ''GET'' (''/items/'' @ ''42'')"
    using is_request_http_event[of "''GET''" "''/items/42''" None] by simp
  have r: "get_item answering ?tbl ''42'' =
      Inr (PDict [(''Item'', PDict [(''id'', PStr ''42''), (''name'', PStr ''gadget''),
                                   (''qty'', PDecimal (Decimal 3 0))])])"
    by (simp add: get_item_def check_key_def answering_def)
  have k: "map fst (contents widget_table) = [''42'']"
    by (simp add: widget_table_def)
  from post_overwrites[OF o l j i n h c g r] o l h g r k show ?thesis
    by (simp add: sample_lib_def)
qed

text \<open>
  C6 as stated fails. For an \<open>id\<close> with a \<open>/\<close> in it: the item under \<open>a/b\<close> is
  overwritten, and \<open>GET /items/a/b\<close> answers 404 instead of the new value. And when the
  store fails the call of the \<open>GET\<close>: the item under \<open>42\<close> is overwritten, and
  \<open>GET /items/42\<close> answers 500.
\<close>

theorem overwrite_slash_id_counterexample:
  "map_of (contents slash_table) ''a/b'' =
     Some (PDict [(''id'', PStr ''a/b''), (''n'', PDecimal (Decimal 5 0))]) \<and>
   loads_str sample_lib slash_text' = Inr (PDict [(''id'', PStr ''a/b''), (''n'', PInt 6)]) \<and>
   handler sample_lib answering slash_table (http_event ''POST'' ''/items'' (Some slash_text')) =
     (Inr \<lparr>statusCode = 201,
           headers = Some [(''Content-Type'', ''application/json'')],
           body = JsonText (PDict [(''message'', PStr ''Item created'')])\<rparr>,
      \<lparr>contents = [(''a/b'', PDict [(''id'', PStr ''a/b''), (''n'', PDecimal (Decimal 6 0))])]\<rparr>) \<and>
   fst (handler sample_lib answering
          \<lparr>contents = [(''a/b'', PDict [(''id'', PStr ''a/b''), (''n'', PDecimal (Decimal 6 0))])]\<rparr>
          (http_event ''GET'' ''/items/a/b'' None)) =
     Inr \<lparr>statusCode = 404, headers = None,
          body = JsonText (PDict [(''error'', PStr ''Item not found'')])\<rparr> \<and>
   map_of (contents widget_table) ''42'' =
     Some (PDict [(''id'', PStr ''42''), (''price'', PDecimal (Decimal 995 (-2)))]) \<and>
   handler sample_lib answering widget_table (http_event ''POST'' ''/items'' (Some gadget_text)) =
     (Inr \<lparr>statusCode = 201,
           headers = Some [(''Content-Type'', ''application/json'')],
           body = JsonText (PDict [(''message'', PStr ''Item created'')])\<rparr>,
      \<lparr>contents = [(''42'', PDict [(''id'', PStr ''42''), (''name'', PStr ''gadget''),
                                  (''qty'', PDecimal (Decimal 3 0))])]\<rparr>) \<and>
   fst (handler sample_lib failing
          \<lparr>contents = [(''42'', PDict [(''id'', PStr ''42''), (''name'', PStr ''gadget''),
                                      (''qty'', PDecimal (Decimal 3 0))])]\<rparr>
          (http_event ''GET'' ''/items/42'' None)) =
     Inr \<lparr>statusCode = 500, headers = None,
          body = JsonText (PDict [(''error'', PStr ''ProvisionedThroughputExceededException'')])\<rparr>"
proof -
  have p: "has_prefix ''/items/'' ''/items/a/b''" and p': "has_prefix ''/items/'' ''/items/42''"
    by (simp_all add: has_prefix_def)
  have a: "after_last_slash ''/items/a/b'' = ''b''" and a': "after_last_slash ''/items/42'' = ''42''"
    by (simp_all add: after_last_slash_def)
  show ?thesis
    by (simp add: sample_eval dispatch_get_item[OF p] dispatch_get_item[OF p'] a a' get_item_def
          slash_table_def widget_table_def)
qed

text \<open>
  C7, as amended. \<open>GET /items\<close> whose one \<open>scan\<close> call the store answers with the whole
  table in its page (no \<open>LastEvaluatedKey\<close> in the response), the items being writable
  as JSON, returns 200 with the JSON array of all the items of the table. After N
  \<open>POST\<close>s with distinct \<open>id\<close>s, each answered with 201, that array contains the N items:
  each invocation works on the table the previous one left.
\<close>

theorem get_items_lists_all:
  assumes "invoke_all lib tbl0 calls = (outs, tbl)"
    and "list_all created outs"
    and "list_all2 (posts_item lib) (map snd calls) its"
    and "list_all is_json its"
    and "distinct (map item_id its)"
    and "list_all (\<lambda>kv. json_able (snd kv)) (contents tbl0)"
    and "is_request get ''GET'' ''/items''"
    and "scan svc tbl = Inr response"
    and "py_in ''LastEvaluatedKey'' response = Inr False"
  shows "handler lib svc tbl get =
     (Inr \<lparr>statusCode = 200,
           headers = Some [(''Content-Type'', ''application/json'')],
           body = JsonText (PList (map (\<lambda>kv. floatify lib (snd kv)) (contents tbl)))\<rparr>, tbl) \<and>
     list_all (\<lambda>it. numbers_as_float lib it \<in> set (map (\<lambda>kv. floatify lib (snd kv)) (contents tbl))) its"
proof -
  from posts_effect[OF assms(1-6)]
  have a: "list_all (\<lambda>kv. json_able (snd kv)) (contents tbl)"
    and e: "\<forall>it \<in> set its. \<exists>v k. dynamo_value it = Inr v \<and> item_id it = Some k \<and>
        map_of (contents tbl) k = Some v"
    by auto
  from assms(8) have f: "fault svc = None"
    by (simp add: scan_Inr)
  from assms(8,9) have whole: "take (max 1 (page_limit svc)) (contents tbl) = contents tbl"
    by (rule scan_complete)
  from a have "json_able (PList (map snd (contents tbl)))"
    by (simp add: list_all_iff)
  with f whole have g: "handler lib svc tbl get =
     (Inr \<lparr>statusCode = 200,
           headers = Some [(''Content-Type'', ''application/json'')],
           body = JsonText (PList (map (\<lambda>kv. floatify lib (snd kv)) (contents tbl)))\<rparr>, tbl)"
    by (simp add: handler_request[OF assms(7)] dispatch_get_items json_dumps_decimal bind_exc_def
          comp_def)
  have "numbers_as_float lib it \<in> set (map (\<lambda>kv. floatify lib (snd kv)) (contents tbl))"
    if "it \<in> set its" for it
  proof -
    from that e obtain v k where v: "dynamo_value it = Inr v" and m: "map_of (contents tbl) k = Some v"
      by blast
    from that assms(4) have "is_json it"
      by (simp add: list_all_iff)
    then have "floatify lib v = numbers_as_float lib it"
      using v by (rule floatify_dynamo_value)
    moreover from m have "(k, v) \<in> set (contents tbl)"
      by (rule map_of_SomeD)
    ultimately show ?thesis
      by (force simp: image_iff)
  qed
  with g show ?thesis
    by (simp add: list_all_iff)
qed

theorem get_items_lists_all_witness:
  "invoke_all sample_lib empty_table
      [(answering, http_event ''POST'' ''/items'' (Some widget_text)),
       (answering, http_event ''POST'' ''/items'' (Some tagged_text))] =
     ([Inr \<lparr>statusCode = 201,
            headers = Some [(''Content-Type'', ''application/json'')],
            body = JsonText (PDict [(''message'', PStr ''Item created'')])\<rparr>,
       Inr \<lparr>statusCode = 201,
            headers = Some [(''Content-Type'', ''application/json'')],
            body = JsonText (PDict [(''message'', PStr ''Item created'')])\<rparr>],
      two_items_table) \<and>
   list_all2 (posts_item sample_lib)
     [http_event ''POST'' ''/items'' (Some widget_text),
      http_event ''POST'' ''/items'' (Some tagged_text)]
     [PDict [(''id'', PStr ''42''), (''name'', PStr ''widget'')],
      PDict [(''id'', PStr ''7''), (''tags'', PList [PStr ''a'', PStr ''b''])]] \<and>
   scan answering two_items_table =
     Inr (PDict [(''Items'', PList [PDict [(''id'', PStr ''42''), (''name'', PStr ''widget'')],
                    PDict [(''id'', PStr ''7''), (''tags'', PList [PStr ''a'', PStr ''b''])]])]) \<and>
   handler sample_lib answering two_items_table (http_event ''GET'' ''/items'' None) =
     (Inr \<lparr>statusCode = 200,
           headers = Some [(''Content-Type'', ''application/json'')],
           body = JsonText (PList [PDict [(''id'', PStr ''42''), (''name'', PStr ''widget'')],
                    PDict [(''id'', PStr ''7''), (''tags'', PList [PStr ''a'', PStr ''b''])]])\<rparr>,
      two_items_table)"
proof -
  let ?calls = "[(answering, http_event ''POST'' ''/items'' (Some widget_text)),
       (answering, http_event ''POST'' ''/items'' (Some tagged_text))] :: (service \<times> decimal pyval) list"
  let ?its = "[PDict [(''id'', PStr ''42''), (''name'', PStr ''widget'')],
              PDict [(''id'', PStr ''7''), (''tags'', PList [PStr ''a'', PStr ''b''])]] :: decimal pyval list"
  let ?ok = "Inr \<lparr>statusCode = 201,
            headers = Some [(''Content-Type'', ''application/json'')],
            body = JsonText (PDict [(''message'', PStr ''Item created'')])\<rparr> :: exc + decimal response"
  let ?resp = "PDict [(''Items'', PList [PDict [(''id'', PStr ''42''), (''name'', PStr ''widget'')],
                    PDict [(''id'', PStr ''7''), (''tags'', PList [PStr ''a'', PStr ''b''])]])] :: decimal pyval"
  have r: "invoke_all sample_lib empty_table ?calls = ([?ok, ?ok], two_items_table)"
    by (simp add: sample_eval empty_table_def two_items_table_def)
  have c: "list_all created [?ok, ?ok]"
    by (simp add: created_def)
  have l: "list_all2 (posts_item sample_lib) (map snd ?calls) ?its"
    by (simp add: posts_item_http_event sample_lib_def sample_loads_def sample_texts)
  have j: "list_all is_json ?its" by simp
  have d: "distinct (map item_id ?its)"
    by (simp add: item_id_def hash_key_def)
  have a: "list_all (\<lambda>kv. json_able (snd kv)) (contents empty_table)"
    by (simp add: empty_table_def)
  have g: "is_request (http_event ''GET'' ''/items'' None :: decimal pyval) ''GET'' ''/items''"
    by (rule is_request_http_event)
  have s: "scan answering two_items_table = Inr ?resp"
    by (simp add: scan_def answering_def two_items_table_def)
  have e: "py_in ''LastEvaluatedKey'' ?resp = Inr False"
    by simp
  from get_items_lists_all[OF r c l j d a g s e] r l s show ?thesis
    by (simp add: two_items_table_def)
qed

text \<open>
  C7 as stated fails. When the store fails the \<open>scan\<close> call, \<open>GET /items\<close> answers 500.
  When an item has a binary attribute, it answers 500. When the table is larger than
  the page of the one \<open>scan\<close> the code makes, the array holds the first page only: after
  two \<open>POST\<close>s with distinct \<open>id\<close>s, each answered with 201, and a page of one item,
  the second item is missing.
\<close>

theorem get_items_counterexample:
  "handler sample_lib failing two_items_table (http_event ''GET'' ''/items'' None) =
     (Inr \<lparr>statusCode = 500, headers = None,
           body = JsonText (PDict [(''error'', PStr ''ProvisionedThroughputExceededException'')])\<rparr>,
      two_items_table) \<and>
   handler sample_lib answering binary_table (http_event ''GET'' ''/items'' None) =
     (Inr \<lparr>statusCode = 500, headers = None,
           body = JsonText (PDict [(''error'', PStr ''Object of type Binary is not JSON serializable'')])\<rparr>,
      binary_table) \<and>
   invoke_all sample_lib empty_table
      [(answering, http_event ''POST'' ''/items'' (Some widget_text)),
       (answering, http_event ''POST'' ''/items'' (Some tagged_text))] =
     ([Inr \<lparr>statusCode = 201,
            headers = Some [(''Content-Type'', ''application/json'')],
            body = JsonText (PDict [(''message'', PStr ''Item created'')])\<rparr>,
       Inr \<lparr>statusCode = 201,
            headers = Some [(''Content-Type'', ''application/json'')],
            body = JsonText (PDict [(''message'', PStr ''Item created'')])\<rparr>],
      two_items_table) \<and>
   scan one_item_page two_items_table =
     Inr (PDict [(''Items'', PList [PDict [(''id'', PStr ''42''), (''name'', PStr ''widget'')]]),
                 (''LastEvaluatedKey'', PDict [(''id'', PStr ''42'')])]) \<and>
   handler sample_lib one_item_page two_items_table (http_event ''GET'' ''/items'' None) =
     (Inr \<lparr>statusCode = 200,
           headers = Some [(''Content-Type'', ''application/json'')],
           body = JsonText (PList [PDict [(''id'', PStr ''42''), (''name'', PStr ''widget'')]])\<rparr>,
      two_items_table)"
  by (simp add: sample_eval scan_def empty_table_def two_items_table_def binary_table_def
        json_dumps_def DecimalEncoder_default_def JSONEncoder_default_def)

text \<open>
  C8. In every response 200 to a \<open>GET\<close>, on \<open>/items\<close> or on \<open>/items/{id}\<close>, the body is
  what the store returned (the page of the scan, or the item under the last segment of
  the path) with each \<open>Decimal\<close> replaced by its \<open>float\<close>; no \<open>Decimal\<close> is written to
  the JSON text.
\<close>

theorem get_bodies_have_floats:
  assumes "is_request event ''GET'' p"
    and "fst (handler lib svc tbl event) = Inr resp"
    and "statusCode resp = 200"
  shows "\<exists>v. body resp = JsonText (floatify lib v) \<and> decimal_free (floatify lib v) \<and>
           (if p = ''/items''
            then v = PList (map snd (take (max 1 (page_limit svc)) (contents tbl))) \<and>
                 (\<exists>response. scan svc tbl = Inr response \<and> subscript response ''Items'' = Inr v)
            else map_of (contents tbl) (after_last_slash p) = Some v \<and>
                 (\<exists>response. get_item svc tbl (after_last_slash p) = Inr response \<and>
                    subscript response ''Item'' = Inr v))"
proof -
  note h = handler_request[OF assms(1)]
  consider (all) "p = ''/items''" | (one) "p \<noteq> ''/items''" "has_prefix ''/items/'' p"
    | (other) "p \<noteq> ''/items''" "\<not> has_prefix ''/items/'' p"
    by blast
  then show ?thesis
  proof cases
    case all
    show ?thesis
    proof (cases "fault svc")
      case (Some e)
      with all assms(2,3) show ?thesis
        by (auto simp: h dispatch_get_items)
    next
      case None
      define v where "v = PList (map snd (take (max 1 (page_limit svc)) (contents tbl)))"
      from None have sc: "\<exists>response. scan svc tbl = Inr response \<and> subscript response ''Items'' = Inr v"
        by (simp add: scan_def Let_def v_def)
      from all None assms(2,3) have "body resp = JsonText (floatify lib v) \<and> decimal_free (floatify lib v)"
        by (auto simp: h dispatch_get_items bind_exc_def v_def
                 split: sum.splits dest: json_dumps_decimal_Inr)
      with sc all show ?thesis
        by (auto simp: v_def)
    qed
  next
    case one
    show ?thesis
    proof (cases "get_item svc tbl (after_last_slash p)")
      case (Inl e)
      with one assms(2,3) show ?thesis
        by (auto simp: h dispatch_get_item)
    next
      case (Inr response)
      then have r: "response = (case map_of (contents tbl) (after_last_slash p) of
          None \<Rightarrow> PDict [] | Some item \<Rightarrow> PDict [(''Item'', item)])"
        by (simp add: get_item_Inr)
      show ?thesis
      proof (cases "map_of (contents tbl) (after_last_slash p)")
        case None
        with one Inr r assms(2,3) show ?thesis
          by (auto simp: h dispatch_get_item)
      next
        case (Some v)
        with one Inr r assms(2,3)
        have "body resp = JsonText (floatify lib v) \<and> decimal_free (floatify lib v)"
          by (auto simp: h dispatch_get_item bind_exc_def
                   split: sum.splits dest: json_dumps_decimal_Inr)
        with one Some Inr r show ?thesis
          by auto
      qed
    qed
  next
    case other
    with assms(2,3) dispatch_get_cases[of p lib svc tbl event] show ?thesis
      by (auto simp: h)
  qed
qed

theorem get_bodies_have_floats_witness:
  "is_request (http_event ''GET'' ''/items'' None :: decimal pyval) ''GET'' ''/items'' \<and>
   fst (handler sample_lib answering widget_table (http_event ''GET'' ''/items'' None)) =
     Inr \<lparr>statusCode = 200,
          headers = Some [(''Content-Type'', ''application/json'')],
          body = JsonText (PList [PDict [(''id'', PStr ''42''), (''price'', PFloat (Decimal 995 (-2)))]])\<rparr> \<and>
   (\<exists>v. JsonText (PList [PDict [(''id'', PStr ''42''), (''price'', PFloat (Decimal 995 (-2)))]]) =
          JsonText (floatify sample_lib v) \<and>
        decimal_free (floatify sample_lib v) \<and>
        v = PList (map snd (take (max 1 (page_limit answering)) (contents widget_table))))"
proof -
  have g: "is_request (http_event ''GET'' ''/items'' None :: decimal pyval) ''GET'' ''/items''"
    by (rule is_request_http_event)
  have h: "fst (handler sample_lib answering widget_table (http_event ''GET'' ''/items'' None)) =
     Inr \<lparr>statusCode = 200,
          headers = Some [(''Content-Type'', ''application/json'')],
          body = JsonText (PList [PDict [(''id'', PStr ''42''), (''price'', PFloat (Decimal 995 (-2)))]])\<rparr>"
    by (simp add: sample_eval widget_table_def)
  from get_bodies_have_floats[OF g h] g h show ?thesis
    by auto
qed

text \<open>
  C9. An invocation that is not a \<open>POST /items\<close>, a \<open>GET\<close> in particular, leaves the
  table as it was, whatever the store does. Any invocation changes at most the item
  under the \<open>id\<close> of the posted body: every other key holds what it held.
\<close>

theorem writes_touch_one_item:
  "(\<not> is_request event ''POST'' ''/items'' \<longrightarrow> snd (handler lib svc tbl event) = tbl) \<and>
   (\<forall>k. posted_id lib event \<noteq> Some k \<longrightarrow>
      map_of (contents (snd (handler lib svc tbl event))) k = map_of (contents tbl) k)"
proof (cases "is_request event ''POST'' ''/items''")
  case False
  then show ?thesis by (simp add: snd_handler_read)
next
  case req: True
  note h = handler_request[OF req]
  show ?thesis
  proof (cases "bind_exc (subscript event ''body'') (json_loads lib)")
    case (Inl e)
    with req show ?thesis
      by (simp add: h dispatch_post_items)
  next
    case (Inr item)
    then have pid: "posted_id lib event = item_id item"
      by (simp add: posted_id_def)
    show ?thesis
    proof (cases "put_item svc tbl item")
      case (Inl e)
      with Inr req show ?thesis
        by (simp add: h dispatch_post_items)
    next
      case put: (Inr tbl')
      then obtain v k' where "item_id item = Some k'"
        and tbl': "tbl' = tbl\<lparr>contents := AList.update k' v (contents tbl)\<rparr>"
        by (auto simp: put_item_Inr)
      with pid have "posted_id lib event = Some k'" by simp
      with Inr put tbl' req show ?thesis
        by (auto simp: h dispatch_post_items map_of_update_other)
    qed
  qed
qed

theorem writes_touch_one_item_witness:
  "\<not> is_request (http_event ''GET'' ''/items/42'' None :: decimal pyval) ''POST'' ''/items'' \<and>
   snd (handler sample_lib answering widget_table (http_event ''GET'' ''/items/42'' None)) = widget_table \<and>
   posted_id sample_lib (http_event ''POST'' ''/items'' (Some tagged_text)) = Some ''7'' \<and>
   contents (snd (handler sample_lib answering widget_table
                    (http_event ''POST'' ''/items'' (Some tagged_text)))) =
     contents widget_table @ [(''7'', PDict [(''id'', PStr ''7''), (''tags'', PList [PStr ''a'', PStr ''b''])])] \<and>
   map_of (contents (snd (handler sample_lib answering widget_table
                            (http_event ''POST'' ''/items'' (Some tagged_text))))) ''42'' =
     map_of (contents widget_table) ''42''"
proof -
  have n: "\<not> is_request (http_event ''GET'' ''/items/42'' None :: decimal pyval) ''POST'' ''/items''"
    by (simp add: is_request_def request_field_def http_event_def bind_exc_def)
  have pid: "posted_id sample_lib (http_event ''POST'' ''/items'' (Some tagged_text)) = Some ''7''"
    by (simp add: posted_id_def subscript_body_http_event bind_exc_def sample_lib_def
          sample_loads_def sample_texts item_id_def hash_key_def)
  have c: "contents (snd (handler sample_lib answering widget_table
                    (http_event ''POST'' ''/items'' (Some tagged_text)))) =
     contents widget_table @ [(''7'', PDict [(''id'', PStr ''7''), (''tags'', PList [PStr ''a'', PStr ''b''])])]"
    by (simp add: sample_eval widget_table_def)
  from writes_touch_one_item[of "http_event ''GET'' ''/items/42'' None" sample_lib answering widget_table]
    writes_touch_one_item[of "http_event ''POST'' ''/items'' (Some tagged_text)" sample_lib answering widget_table]
  show ?thesis using n pid c by simp
qed

text \<open>
  C10. For a \<open>GET\<close> on a path that starts with \<open>/items/\<close> the handler looks up the part
  of the path after its last \<open>/\<close>: the empty string for \<open>/items/\<close>, \<open>b\<close> for
  \<open>/items/a/b\<close>. The response is that of the lookup, never the 404 of the last route.
\<close>

theorem get_item_uses_last_segment:
  assumes "is_request event ''GET'' p" and "has_prefix ''/items/'' p"
  shows "fst (handler lib svc tbl event) =
     (case get_item svc tbl (after_last_slash p) of
        Inl e \<Rightarrow>
          Inr \<lparr>statusCode = 500, headers = None,
               body = JsonText (PDict [(''error'', PStr (py_str e))])\<rparr>
      | Inr response \<Rightarrow>
          (case subscript response ''Item'' of
             Inl e \<Rightarrow>
               Inr \<lparr>statusCode = 404, headers = None,
                    body = JsonText (PDict [(''error'', PStr ''Item not found'')])\<rparr>
           | Inr item \<Rightarrow>
               (case json_dumps (DecimalEncoder_default lib) item of
                  Inl e \<Rightarrow>
                    Inr \<lparr>statusCode = 500, headers = None,
                         body = JsonText (PDict [(''error'', PStr (py_str e))])\<rparr>
                | Inr s \<Rightarrow>
                    Inr \<lparr>statusCode = 200,
                         headers = Some [(''Content-Type'', ''application/json'')],
                         body = s\<rparr>))) \<and>
     fst (handler lib svc tbl event) \<noteq>
       Inr \<lparr>statusCode = 404, headers = None,
            body = JsonText (PDict [(''error'', PStr ''Not found'')])\<rparr> \<and>
     after_last_slash ''/items/'' = [] \<and> after_last_slash ''/items/a/b'' = ''b''"
  by (auto simp: handler_request[OF assms(1)] dispatch_get_item[OF assms(2)]
        bind_exc_def after_last_slash_def split: option.splits sum.splits)

theorem get_item_uses_last_segment_witness:
  "is_request (http_event ''GET'' ''/items/'' None :: decimal pyval) ''GET'' ''/items/'' \<and>
   is_request (http_event ''GET'' ''/items/a/b'' None :: decimal pyval) ''GET'' ''/items/a/b'' \<and>
   has_prefix ''/items/'' ''/items/'' \<and> has_prefix ''/items/'' ''/items/a/b'' \<and>
   get_item answering segment_table [] =
     Inl (ClientError ''ValidationException: The AttributeValue for a key attribute cannot contain an empty string value. Key: id'') \<and>
   fst (handler sample_lib answering segment_table (http_event ''GET'' ''/items/'' None)) =
     Inr \<lparr>statusCode = 500, headers = None,
          body = JsonText (PDict [(''error'', PStr ''ValidationException: The AttributeValue for a key attribute cannot contain an empty string value. Key: id'')])\<rparr> \<and>
   fst (handler sample_lib answering segment_table (http_event ''GET'' ''/items/a/b'' None)) =
     Inr \<lparr>statusCode = 200,
          headers = Some [(''Content-Type'', ''application/json'')],
          body = JsonText (PDict [(''id'', PStr ''b'')])\<rparr>"
proof -
  have p1: "has_prefix ''/items/'' ''/items/''" and p2: "has_prefix ''/items/'' ''/items/a/b''"
    by (simp_all add: has_prefix_def)
  have a: "after_last_slash ''/items/'' = []" "after_last_slash ''/items/a/b'' = ''b''"
    by (simp_all add: after_last_slash_def)
  from get_item_uses_last_segment[OF is_request_http_event[of "''GET''" "''/items/''" None] p1,
      of sample_lib answering segment_table]
    get_item_uses_last_segment[OF is_request_http_event[of "''GET''" "''/items/a/b''" None] p2,
      of sample_lib answering segment_table]
  show ?thesis using p1 p2
    by (simp add: a get_item_def check_key_def answering_def segment_table_def json_dumps_decimal
          is_request_http_event)
qed

end
